theory Spec2Isabelle
  imports Complex_Main "HOL-Library.Sublist" "HOL-Library.Log_Nat" "HOL-Library.AList"
begin

section \<open>Python values and exceptions\<close>

text \<open>
  The program is \<^verbatim>\<open>health-checks/system_metrics_report.py\<close>. Its snapshot is a Python
  dictionary of dictionaries, so the model keeps Python's dynamic values: a failed lookup,
  a comparison of a string with a number or a division by zero is a branch that returns
  an exception, as in the source.

  A dictionary is an association list with string keys (every key of the snapshot is a
  string); lookup takes the first binding.
\<close>

datatype exn_class =
  KeyError | TypeError | AttributeError | ZeroDivisionError | OverflowError
  | ValueError | IndexError | FileNotFoundError | OSError

datatype exn = Exn exn_class string

datatype num = NInt int | NFloat rat

datatype pyval =
  PNone
  | PNum num
  | PStr string
  | PList "pyval list"
  | PDict "(string \<times> pyval) list"

abbreviation PInt :: "int \<Rightarrow> pyval" where
  "PInt i \<equiv> PNum (NInt i)"

abbreviation PFloat :: "rat \<Rightarrow> pyval" where
  "PFloat q \<equiv> PNum (NFloat q)"

fun exn_class_of :: "exn \<Rightarrow> exn_class" where
  "exn_class_of (Exn c m) = c"

fun exn_str :: "exn \<Rightarrow> string" where
  "exn_str (Exn c m) = m"

definition bnd :: "exn + 'a \<Rightarrow> ('a \<Rightarrow> exn + 'b) \<Rightarrow> exn + 'b" where
  "bnd m f = (case m of Inl e \<Rightarrow> Inl e | Inr x \<Rightarrow> f x)"

section \<open>Floating point\<close>

text \<open>
  A Python float is an IEEE 754 double. A finite double is a rational number, and the
  model holds a float as that rational: \<open>NFloat q\<close> is the double whose exact value is
  \<open>q\<close>. Every arithmetic operation rounds its exact result to the nearest double, ties
  to even (\<open>fl\<close>), with gradual underflow below \<open>2 powi (- 1022)\<close>. Infinities and
  NaN are not values of the model: the conversions of an integer, which raise
  OverflowError in Python, do so here, and the product of two floats is only used on
  operands far from the overflow threshold.
\<close>

definition rhe :: "rat \<Rightarrow> int" where
  "rhe x = (let f = \<lfloor>x\<rfloor>; r = x - of_int f in
     if r < 1 / 2 then f else if 1 / 2 < r then f + 1 else if even f then f else f + 1)"

definition ilog2 :: "rat \<Rightarrow> int" where
  "ilog2 x = (if 1 \<le> x then bitlen \<lfloor>x\<rfloor> - 1 else - bitlen (\<lceil>1 / x\<rceil> - 1))"

definition fl :: "rat \<Rightarrow> rat" where
  "fl x = (if x = 0 then 0 else
     let p = max (ilog2 \<bar>x\<bar> - 52) (- 1074)
     in of_int (rhe (x / 2 powi p)) * 2 powi p)"

definition float_of_int :: "int \<Rightarrow> exn + rat" where
  "float_of_int n = (let x = fl (of_int n) in
     if 2 ^ 1024 \<le> \<bar>x\<bar> then Inl (Exn OverflowError ''int too large to convert to float'')
     else Inr x)"

definition int_truediv :: "int \<Rightarrow> int \<Rightarrow> exn + rat" where
  "int_truediv a b =
     (if b = 0 then Inl (Exn ZeroDivisionError ''division by zero'')
      else let x = fl (of_int a / of_int b) in
        if 2 ^ 1024 \<le> \<bar>x\<bar>
        then Inl (Exn OverflowError ''integer division result too large for a float'')
        else Inr x)"

definition float_mul :: "rat \<Rightarrow> rat \<Rightarrow> rat" where
  "float_mul x y = fl (x * y)"

definition float_truediv :: "rat \<Rightarrow> rat \<Rightarrow> exn + rat" where
  "float_truediv x y =
     (if y = 0 then Inl (Exn ZeroDivisionError ''float division by zero'')
      else Inr (fl (x / y)))"

text \<open>
  \<^verbatim>\<open>round(x, 1)\<close> on a float: the decimal with one fractional digit nearest to the
  exact value of \<open>x\<close> (ties to even), converted back to a double.
\<close>

definition py_round1 :: "rat \<Rightarrow> rat" where
  "py_round1 x = fl (of_int (rhe (x * 10)) / 10)"

definition py_round2 :: "rat \<Rightarrow> rat" where
  "py_round2 x = fl (of_int (rhe (x * 100)) / 100)"

text \<open>
  Floor division and remainder of two floats, as CPython computes them
  (\<^verbatim>\<open>_float_div_mod\<close> and \<^verbatim>\<open>float_rem\<close> in \<^verbatim>\<open>floatobject.c\<close>), for a divisor that is not
  zero. C's \<^verbatim>\<open>fmod\<close> is exact and has the sign of the dividend. The quotient is
  \<^verbatim>\<open>(vx - mod) / wx\<close>, a rounded difference divided with rounding, stepped down by one
  when the remainder had to change sign, and then snapped to the nearest whole number. The
  sign of a zero result is not modelled.
\<close>

definition float_fmod :: "rat \<Rightarrow> rat \<Rightarrow> rat" where
  "float_fmod x y = x - y * of_int (if 0 \<le> x / y then \<lfloor>x / y\<rfloor> else \<lceil>x / y\<rceil>)"

definition float_floordiv :: "rat \<Rightarrow> rat \<Rightarrow> rat" where
  "float_floordiv vx wx =
     (let remainder = float_fmod vx wx;
          quotient = fl (fl (vx - remainder) / wx);
          quotient = (if remainder \<noteq> 0 \<and> ((wx < 0) \<noteq> (remainder < 0))
                      then fl (quotient - 1) else quotient)
      in if quotient \<noteq> 0
         then (let floordiv = of_int \<lfloor>quotient\<rfloor>
               in if 1 / 2 < fl (quotient - floordiv) then fl (floordiv + 1) else floordiv)
         else 0)"

definition float_mod :: "rat \<Rightarrow> rat \<Rightarrow> rat" where
  "float_mod vx wx =
     (let remainder = float_fmod vx wx
      in if remainder \<noteq> 0 \<and> ((wx < 0) \<noteq> (remainder < 0)) then fl (remainder + wx)
         else remainder)"

text \<open>\<^verbatim>\<open>int(x)\<close> on a float truncates towards zero.\<close>

definition int_of_float :: "rat \<Rightarrow> int" where
  "int_of_float x = (if 0 \<le> x then \<lfloor>x\<rfloor> else \<lceil>x\<rceil>)"

text \<open>The exact value of a number, and its conversion to a float.\<close>

fun num_val :: "num \<Rightarrow> rat" where
  "num_val (NInt i) = of_int i"
| "num_val (NFloat q) = q"

fun num_to_float :: "num \<Rightarrow> exn + rat" where
  "num_to_float (NInt i) = float_of_int i"
| "num_to_float (NFloat q) = Inr q"

subsection \<open>Decimal text of numbers\<close>

definition digit_char :: "nat \<Rightarrow> char" where
  "digit_char d = ''0123456789'' ! d"

fun show_nat :: "nat \<Rightarrow> string" where
  "show_nat n = (if n < 10 then [digit_char n] else show_nat (n div 10) @ [digit_char (n mod 10)])"

declare show_nat.simps [simp del]

definition show_int :: "int \<Rightarrow> string" where
  "show_int i = (if i < 0 then ''-'' @ show_nat (nat (- i)) else show_nat (nat i))"

text \<open>
  \<^verbatim>\<open>f"{x:.1f}"\<close> on a float: the exact value rounded to one fractional digit, ties to
  even; a negative value that rounds to zero keeps its sign.
\<close>

definition format_1f :: "rat \<Rightarrow> string" where
  "format_1f x = (let k = nat (rhe (\<bar>x\<bar> * 10)) in
     (if x < 0 then ''-'' else '''') @ show_nat (k div 10) @ ''.'' @ show_nat (k mod 10))"

section \<open>Text\<close>

text \<open>
  A Python string is held as its UTF-8 encoding, a list of bytes; the texts of the
  program are decoded from UTF-8 (\<^verbatim>\<open>subprocess\<close> with \<^verbatim>\<open>text=True\<close>, files opened in text
  mode). A character of the string is a lead byte with the continuation bytes (binary
  \<^verbatim>\<open>10xxxxxx\<close>) that follow it. \<^verbatim>\<open>len\<close>, iteration and slices count characters, not bytes.
\<close>

definition is_continuation :: "char \<Rightarrow> bool" where
  "is_continuation c = (128 \<le> (of_char c :: nat) \<and> (of_char c :: nat) < 192)"

function chars :: "string \<Rightarrow> string list" where
  "chars [] = []"
| "chars (c # cs) = (c # takeWhile is_continuation cs) # chars (dropWhile is_continuation cs)"
  by pat_completeness auto

termination
  by (relation "measure length") (simp_all add: length_dropWhile_le less_Suc_eq_le)

text \<open>\<^verbatim>\<open>len(s)\<close> and \<^verbatim>\<open>s[:n]\<close> on a string.\<close>

definition str_len :: "string \<Rightarrow> nat" where
  "str_len s = length (chars s)"

definition str_take :: "nat \<Rightarrow> string \<Rightarrow> string" where
  "str_take n s = concat (take n (chars s))"

text \<open>The code point of one character, from its bytes.\<close>

definition code_point :: "string \<Rightarrow> nat" where
  "code_point ch =
     (case ch of
        [] \<Rightarrow> 0
      | c # cs \<Rightarrow>
          (let b = (of_char c :: nat);
               lead = (if b < 128 then b else if b < 224 then b - 192
                       else if b < 240 then b - 224 else b - 240)
           in foldl (\<lambda>a c. 64 * a + ((of_char c :: nat) - 128)) lead cs))"

section \<open>Python operations on snapshot values\<close>

text \<open>
  The operations that the program applies to snapshot values, each with
  the exception Python raises on a value of the wrong type. The message of a TypeError or
  AttributeError is abbreviated; no exception of the renderer is caught inside it, so the
  message is only seen by the handler of \<^verbatim>\<open>main\<close>.

  \<open>str\<close> of a string, an integer and \<^verbatim>\<open>None\<close> is modelled; the text of a float or of a
  container is Python's \<^verbatim>\<open>repr\<close>, which stays a parameter \<open>R\<close> of the renderer.
\<close>

definition key_error :: "string \<Rightarrow> exn" where
  "key_error k = Exn KeyError ([CHR 0x27] @ k @ [CHR 0x27])"

fun py_getitem :: "pyval \<Rightarrow> string \<Rightarrow> exn + pyval" where
  "py_getitem (PDict d) k = (case map_of d k of Some v \<Rightarrow> Inr v | None \<Rightarrow> Inl (key_error k))"
| "py_getitem (PStr s) k = Inl (Exn TypeError ''string indices must be integers'')"
| "py_getitem (PList xs) k = Inl (Exn TypeError ''list indices must be integers or slices, not str'')"
| "py_getitem v k = Inl (Exn TypeError ''object is not subscriptable'')"

fun py_get :: "pyval \<Rightarrow> string \<Rightarrow> pyval \<Rightarrow> exn + pyval" where
  "py_get (PDict d) k dflt = Inr (case map_of d k of Some v \<Rightarrow> v | None \<Rightarrow> dflt)"
| "py_get v k dflt = Inl (Exn AttributeError ''object has no attribute get'')"

fun py_gt :: "pyval \<Rightarrow> int \<Rightarrow> exn + bool" where
  "py_gt (PNum n) c = Inr (of_int c < num_val n)"
| "py_gt v c = Inl (Exn TypeError ''> not supported between instances'')"

fun py_ge :: "pyval \<Rightarrow> int \<Rightarrow> exn + bool" where
  "py_ge (PNum n) c = Inr (of_int c \<le> num_val n)"
| "py_ge v c = Inl (Exn TypeError ''>= not supported between instances'')"

fun py_eq_int :: "pyval \<Rightarrow> int \<Rightarrow> bool" where
  "py_eq_int (PNum n) c = (num_val n = of_int c)"
| "py_eq_int v c = False"

fun py_eq_str :: "pyval \<Rightarrow> string \<Rightarrow> bool" where
  "py_eq_str (PStr s) c = (s = c)"
| "py_eq_str v c = False"

fun py_truthy :: "pyval \<Rightarrow> bool" where
  "py_truthy PNone = False"
| "py_truthy (PNum n) = (num_val n \<noteq> 0)"
| "py_truthy (PStr s) = (s \<noteq> [])"
| "py_truthy (PList xs) = (xs \<noteq> [])"
| "py_truthy (PDict d) = (d \<noteq> [])"

fun py_iter :: "pyval \<Rightarrow> exn + pyval list" where
  "py_iter (PList xs) = Inr xs"
| "py_iter (PStr s) = Inr (map PStr (chars s))"
| "py_iter (PDict d) = Inr (map (\<lambda>kv. PStr (fst kv)) d)"
| "py_iter v = Inl (Exn TypeError ''object is not iterable'')"

fun py_len :: "pyval \<Rightarrow> exn + int" where
  "py_len (PList xs) = Inr (int (length xs))"
| "py_len (PStr s) = Inr (int (str_len s))"
| "py_len (PDict d) = Inr (int (length d))"
| "py_len v = Inl (Exn TypeError ''object has no len()'')"

fun py_str :: "(pyval \<Rightarrow> string) \<Rightarrow> pyval \<Rightarrow> string" where
  "py_str R (PStr s) = s"
| "py_str R (PNum (NInt i)) = show_int i"
| "py_str R PNone = ''None''"
| "py_str R v = R v"

text \<open>
  \<^verbatim>\<open>v // 86400\<close>. On a float the quotient is rounded down and is again a float.
\<close>

fun py_floordiv :: "pyval \<Rightarrow> int \<Rightarrow> exn + pyval" where
  "py_floordiv (PNum (NInt i)) c =
     (if c = 0 then Inl (Exn ZeroDivisionError ''integer division or modulo by zero'')
      else Inr (PInt (i div c)))"
| "py_floordiv (PNum (NFloat q)) c =
     (if c = 0 then Inl (Exn ZeroDivisionError ''float divmod()'')
      else bnd (float_of_int c) (\<lambda>y. Inr (PFloat (float_floordiv q y))))"
| "py_floordiv v c = Inl (Exn TypeError ''unsupported operand type(s) for //'')"

text \<open>
  \<^verbatim>\<open>a / b\<close>: two integers are divided exactly and the quotient rounded once; otherwise
  both operands are converted to floats first.
\<close>

fun py_truediv :: "pyval \<Rightarrow> pyval \<Rightarrow> exn + rat" where
  "py_truediv (PNum (NInt a)) (PNum (NInt b)) = int_truediv a b"
| "py_truediv (PNum a) (PNum b) =
     bnd (num_to_float a) (\<lambda>x. bnd (num_to_float b) (\<lambda>y. float_truediv x y))"
| "py_truediv a b = Inl (Exn TypeError ''unsupported operand type(s) for /'')"

fun join_strs :: "string \<Rightarrow> string list \<Rightarrow> string" where
  "join_strs sep [] = []"
| "join_strs sep [s] = s"
| "join_strs sep (s # t # ss) = s @ sep @ join_strs sep (t # ss)"

fun strs_of :: "pyval list \<Rightarrow> exn + string list" where
  "strs_of [] = Inr []"
| "strs_of (PStr s # vs) = bnd (strs_of vs) (\<lambda>ss. Inr (s # ss))"
| "strs_of (v # vs) = Inl (Exn TypeError ''sequence item: expected str instance'')"

definition py_join :: "string \<Rightarrow> pyval \<Rightarrow> exn + string" where
  "py_join sep v = bnd (py_iter v) (\<lambda>xs. bnd (strs_of xs) (\<lambda>ss. Inr (join_strs sep ss)))"

text \<open>\<^verbatim>\<open>v[:5]\<close>.\<close>

fun py_take5 :: "pyval \<Rightarrow> exn + pyval" where
  "py_take5 (PList xs) = Inr (PList (take 5 xs))"
| "py_take5 (PStr s) = Inr (PStr (str_take 5 s))"
| "py_take5 v = Inl (Exn TypeError ''object is not subscriptable'')"

text \<open>
  An f-string whose replacement fields are subscripts \<^verbatim>\<open>{v['key']}\<close> of one value
  \<open>v\<close>: the fields are evaluated from left to right, and the first missing key raises.
\<close>

datatype piece = Lit string | Key string

fun fstring :: "(pyval \<Rightarrow> string) \<Rightarrow> pyval \<Rightarrow> piece list \<Rightarrow> exn + string" where
  "fstring R v [] = Inr []"
| "fstring R v (Lit s # ps) = bnd (fstring R v ps) (\<lambda>rest. Inr (s @ rest))"
| "fstring R v (Key k # ps) =
     bnd (py_getitem v k) (\<lambda>x. bnd (fstring R v ps) (\<lambda>rest. Inr (py_str R x @ rest)))"

section \<open>Collector: memory group\<close>

text \<open>
  Lines 143 to 146 of \<^verbatim>\<open>collect_memory_metrics\<close>:
  \<^verbatim>\<open>used_mem = total_mem - available_mem\<close>,
  \<^verbatim>\<open>mem_usage_percent = round((used_mem / total_mem) * 100, 1)\<close>.
  Both operands of the division are integers (kibibytes times 1024).
\<close>

definition mem_usage_percent :: "int \<Rightarrow> int \<Rightarrow> exn + rat" where
  "mem_usage_percent total_mem available_mem =
     (let used_mem = total_mem - available_mem in
      bnd (int_truediv used_mem total_mem) (\<lambda>q. Inr (py_round1 (float_mul q 100))))"

text \<open>
  Lines 151 and 152:
  \<^verbatim>\<open>swap_used = swap_total - swap_free\<close>,
  \<^verbatim>\<open>swap_usage_percent = round((swap_used / swap_total) * 100, 1) if swap_total > 0 else 0\<close>.
  The conditional expression evaluates the division only in its first branch; the other
  branch is the integer \<open>0\<close>.
\<close>

definition swap_usage_percent :: "int \<Rightarrow> int \<Rightarrow> exn + pyval" where
  "swap_usage_percent swap_total swap_free =
     (let swap_used = swap_total - swap_free in
      if swap_total > 0
      then bnd (int_truediv swap_used swap_total) (\<lambda>q. Inr (PFloat (py_round1 (float_mul q 100))))
      else Inr (PInt 0))"

text \<open>
  \<^verbatim>\<open>bytes_to_human\<close> (lines 170 to 176). The argument is an integer; after the first
  division by \<^verbatim>\<open>1024.0\<close> the loop variable is a float. The comparison of an integer
  with a float is exact; formatting an integer with \<^verbatim>\<open>.1f\<close> and dividing it by a
  float convert it to a float first.
\<close>

definition num_format_1f :: "num \<Rightarrow> exn + string" where
  "num_format_1f v = bnd (num_to_float v) (\<lambda>x. Inr (format_1f x))"

fun bytes_loop :: "string list \<Rightarrow> num \<Rightarrow> exn + string" where
  "bytes_loop [] bytes_val = bnd (num_format_1f bytes_val) (\<lambda>s. Inr (s @ '' PB''))"
| "bytes_loop (unit # units) bytes_val =
     (if num_val bytes_val < 1024
      then bnd (num_format_1f bytes_val) (\<lambda>s. Inr (s @ '' '' @ unit))
      else bnd (num_to_float bytes_val) (\<lambda>x.
           bnd (float_truediv x 1024) (\<lambda>y.
           bytes_loop units (NFloat y))))"

definition bytes_to_human :: "int \<Rightarrow> exn + string" where
  "bytes_to_human bytes_val = bytes_loop [''B'', ''KB'', ''MB'', ''GB'', ''TB''] (NInt bytes_val)"

section \<open>Collector: disk group\<close>

text \<open>
  Line 210 of \<^verbatim>\<open>collect_disk_metrics\<close>: the status of one filesystem, from the
  integer parsed out of the \<^verbatim>\<open>Use%\<close> column of \<^verbatim>\<open>df -h\<close>.
\<close>

definition fs_status :: "int \<Rightarrow> string" where
  "fs_status usage_percent =
     (if usage_percent \<ge> 90 then ''critical''
      else if usage_percent \<ge> 80 then ''warning'' else ''ok'')"


text \<open>
  The lines of \<^verbatim>\<open>df -h\<close> arrive split into their columns, and line 209 is
  \<^verbatim>\<open>int(parts[4].rstrip('%'))\<close>.

  \<^verbatim>\<open>int\<close> of a string first turns every character into an ASCII one: a character below
  127 stays, a Unicode space becomes a blank, a Unicode decimal digit becomes its ASCII
  digit, and any other character becomes a question mark, which no number contains. The
  zero digits and the spaces are those of Unicode 14.0, the table of CPython 3.11. It
  then skips blanks, reads a sign, reads digits with single underscores between them,
  refuses more than 4300 digits (CPython 3.11), skips blanks again and must be at the end.
  The message of the first ValueError holds the text between apostrophes, which is what
  \<^verbatim>\<open>repr\<close> prints when the text is printable ASCII without apostrophe or backslash.
\<close>

definition decimal_zeros :: "nat list" where
  "decimal_zeros =
     [48, 1632, 1776, 1984, 2406, 2534, 2662, 2790, 2918, 3046, 3174, 3302, 3430, 3558, 3664,
      3792, 3872, 4160, 4240, 6112, 6160, 6470, 6608, 6784, 6800, 6992, 7088, 7232, 7248, 42528,
      43216, 43264, 43472, 43504, 43600, 44016, 65296, 66720, 68912, 69734, 69872, 69942, 70096,
      70384, 70736, 70864, 71248, 71360, 71472, 71904, 72016, 72784, 73040, 73120, 92768, 92864,
      93008, 120782, 120792, 120802, 120812, 120822, 123200, 123632, 125264, 130032]"

definition unicode_spaces :: "nat list" where
  "unicode_spaces =
     [133, 160, 5760, 8192, 8193, 8194, 8195, 8196, 8197, 8198, 8199, 8200, 8201, 8202, 8232,
      8233, 8239, 8287, 12288]"

definition to_ascii :: "string \<Rightarrow> char" where
  "to_ascii ch =
     (let cp = code_point ch in
      if cp < 127 then hd ch
      else if cp \<in> set unicode_spaces then CHR '' ''
      else (case find (\<lambda>z. z \<le> cp \<and> cp < z + 10) decimal_zeros of
              Some z \<Rightarrow> digit_char (cp - z)
            | None \<Rightarrow> CHR ''?''))"

definition is_space :: "char \<Rightarrow> bool" where
  "is_space c = ((of_char c :: nat) \<in> {9, 10, 11, 12, 13, 32})"

definition is_digit :: "char \<Rightarrow> bool" where
  "is_digit c = (48 \<le> (of_char c :: nat) \<and> (of_char c :: nat) \<le> 57)"

definition rstrip_percent :: "string \<Rightarrow> string" where
  "rstrip_percent s = rev (dropWhile (\<lambda>c. c = CHR ''%'') (rev s))"

fun digits_ok :: "string \<Rightarrow> bool" where
  "digits_ok [] = False"
| "digits_ok [c] = is_digit c"
| "digits_ok (c # d # cs) =
     (is_digit c \<and> (if d = CHR ''_'' then digits_ok cs else digits_ok (d # cs)))"

definition digits_val :: "string \<Rightarrow> nat" where
  "digits_val s = foldl (\<lambda>a c. 10 * a + (of_char c - 48)) 0 (filter is_digit s)"

definition invalid_literal :: "string \<Rightarrow> exn" where
  "invalid_literal s =
     Exn ValueError (''invalid literal for int() with base 10: '' @ [CHR 0x27] @ s @ [CHR 0x27])"

definition too_many_digits :: "nat \<Rightarrow> exn" where
  "too_many_digits n =
     Exn ValueError
       (''Exceeds the limit (4300 digits) for integer string conversion: value has ''
        @ show_nat n @ '' digits; use sys.set_int_max_str_digits() to increase the limit'')"

definition py_int :: "string \<Rightarrow> exn + int" where
  "py_int s =
     (let t = dropWhile is_space (map to_ascii (chars s));
          negative = (t \<noteq> [] \<and> hd t = CHR ''-'');
          body = (if t \<noteq> [] \<and> (hd t = CHR ''-'' \<or> hd t = CHR ''+'') then tl t else t);
          digits = takeWhile (\<lambda>c. is_digit c \<or> c = CHR ''_'') body;
          rest = dropWhile is_space (dropWhile (\<lambda>c. is_digit c \<or> c = CHR ''_'') body)
      in if \<not> digits_ok digits then Inl (invalid_literal s)
         else if 4300 < length (filter is_digit digits)
           then Inl (too_many_digits (length (filter is_digit digits)))
         else if rest \<noteq> [] then Inl (invalid_literal s)
         else Inr (if negative then - int (digits_val digits) else int (digits_val digits)))"

text \<open>Lines 207 to 220: one filesystem of the disk group.\<close>

definition filesystem_entry :: "string list \<Rightarrow> exn + pyval option" where
  "filesystem_entry parts =
     (if 6 \<le> length parts then
        bnd (py_int (rstrip_percent (parts ! 4))) (\<lambda>usage_percent.
        let status = fs_status usage_percent in
        Inr (Some (PDict
          [(''filesystem'', PStr (parts ! 0)), (''size'', PStr (parts ! 1)),
           (''used'', PStr (parts ! 2)), (''available'', PStr (parts ! 3)),
           (''usage_percent'', PInt usage_percent), (''mountpoint'', PStr (parts ! 5)),
           (''status'', PStr status)])))
      else Inr None)"

fun filesystems_of :: "string list list \<Rightarrow> exn + pyval list" where
  "filesystems_of [] = Inr []"
| "filesystems_of (parts # rest) =
     bnd (filesystem_entry parts) (\<lambda>entry.
     bnd (filesystems_of rest) (\<lambda>entries.
     Inr (case entry of None \<Rightarrow> entries | Some fs \<Rightarrow> fs # entries)))"

section \<open>Collector: processes\<close>

text \<open>
  Lines 100 to 109 (and again 159 to 168): one line of \<^verbatim>\<open>ps aux\<close>, split into at most
  eleven columns, becomes a process record when all eleven are there; the command is cut
  to 50 characters, with an ellipsis when it was longer.
\<close>

definition truncate_command :: "string \<Rightarrow> string" where
  "truncate_command s = str_take 50 s @ (if 50 < str_len s then ''...'' else [])"

definition process_entry :: "string list \<Rightarrow> pyval option" where
  "process_entry parts =
     (if 11 \<le> length parts then
        Some (PDict
          [(''user'', PStr (parts ! 0)), (''pid'', PStr (parts ! 1)),
           (''cpu'', PStr (parts ! 2)), (''mem'', PStr (parts ! 3)),
           (''command'', PStr (truncate_command (parts ! 10)))])
      else None)"

definition process_entries :: "string list list \<Rightarrow> pyval list" where
  "process_entries lines = List.map_filter process_entry lines"

section \<open>Collector: the seven groups\<close>

text \<open>
  \<^verbatim>\<open>SystemMetrics\<close> holds the host names, the time stamp and the snapshot under
  construction. What the operating system answers is a value of type \<open>host\<close>: for each
  file read and each command run, either its result or the exception it raised. The
  text scraping of \<^verbatim>\<open>/proc/stat\<close>, \<^verbatim>\<open>/proc/meminfo\<close>, \<^verbatim>\<open>df -i\<close>, \<^verbatim>\<open>find\<close> and of the
  network, service and security commands is part of the host's answer; what the
  collectors do with the answers, and which exceptions they catch, is modelled.

  A collector returns the exception that leaves it, if any, and the object after the
  call. \<^verbatim>\<open>logging\<close> and \<^verbatim>\<open>print\<close> are left out.
\<close>

record system_metrics =
  hostname :: string
  fqdn :: string
  timestamp :: string
  collected :: "(string \<times> pyval) list"

record host =
  read_redhat_release :: "exn + string"
  platform_platform :: string
  read_proc_uptime :: "exn + rat"
  getloadavg :: "exn + rat \<times> rat \<times> rat"
  cpu_count :: pyval
  platform_release :: string
  platform_machine :: string
  read_proc_stat :: "exn + rat"
  ps_by_cpu :: "exn + string list list"
  cpu_model :: string
  read_proc_meminfo :: "exn + (string \<times> int) list"
  ps_by_mem :: "exn + string list list"
  df_h :: "exn + string list list"
  df_i :: "exn + pyval"
  find_large_files :: pyval
  network_body :: "exn + pyval"
  services_body :: "exn + pyval"
  security_body :: "exn + pyval"

definition set_group :: "string \<Rightarrow> pyval \<Rightarrow> system_metrics \<Rightarrow> system_metrics" where
  "set_group g v self = self\<lparr>collected := AList.update g v (collected self)\<rparr>"

text \<open>
  The handler \<^verbatim>\<open>except Exception as e: self.metrics[g] = {'error': str(e)}\<close> around the
  body of a collector.
\<close>

definition error_marker :: "exn \<Rightarrow> pyval" where
  "error_marker e = PDict [(''error'', PStr (exn_str e))]"

definition group_or_marker :: "exn + pyval \<Rightarrow> pyval" where
  "group_or_marker body = (case body of Inr v \<Rightarrow> v | Inl e \<Rightarrow> error_marker e)"

definition guarded :: "string \<Rightarrow> exn + pyval \<Rightarrow> system_metrics \<Rightarrow> exn option \<times> system_metrics" where
  "guarded g body self = (None, set_group g (group_or_marker body) self)"

text \<open>
  \<^verbatim>\<open>collect_system_info\<close> (lines 44 to 81). Only the read of
  \<^verbatim>\<open>/etc/redhat-release\<close> is inside a \<^verbatim>\<open>try\<close>, and only FileNotFoundError is caught
  there; every other exception leaves the method.
\<close>

definition system_info_body :: "host \<Rightarrow> system_metrics \<Rightarrow> exn + pyval" where
  "system_info_body h self =
     bnd (case read_redhat_release h of
            Inr s \<Rightarrow> Inr s
          | Inl e \<Rightarrow> if exn_class_of e = FileNotFoundError then Inr (platform_platform h)
                     else Inl e) (\<lambda>os_info.
     bnd (read_proc_uptime h) (\<lambda>uptime_seconds.
     let uptime_days = int_of_float (float_floordiv uptime_seconds 86400);
         uptime_hours = int_of_float (float_floordiv (float_mod uptime_seconds 86400) 3600);
         uptime_str = show_int uptime_days @ ''d '' @ show_int uptime_hours @ ''h'' in
     bnd (getloadavg h) (\<lambda>load_avg.
     let cpu_cores = cpu_count h in
     Inr (PDict
       [(''hostname'', PStr (hostname self)), (''fqdn'', PStr (fqdn self)),
        (''os_info'', PStr os_info), (''kernel'', PStr (platform_release h)),
        (''architecture'', PStr (platform_machine h)), (''uptime'', PStr uptime_str),
        (''uptime_seconds'', PInt (int_of_float uptime_seconds)),
        (''load_avg'', PDict
           [(''1min'', PFloat (py_round2 (fst load_avg))),
            (''5min'', PFloat (py_round2 (fst (snd load_avg)))),
            (''15min'', PFloat (py_round2 (snd (snd load_avg))))]),
        (''cpu_cores'', cpu_cores), (''timestamp'', PStr (timestamp self))]))))"

definition collect_system_info :: "host \<Rightarrow> system_metrics \<Rightarrow> exn option \<times> system_metrics" where
  "collect_system_info h self =
     (case system_info_body h self of
        Inr v \<Rightarrow> (None, set_group ''system'' v self)
      | Inl e \<Rightarrow> (Some e, self))"

text \<open>\<^verbatim>\<open>collect_cpu_metrics\<close> (lines 83 to 132).\<close>

definition cpu_body :: "host \<Rightarrow> system_metrics \<Rightarrow> exn + pyval" where
  "cpu_body h self =
     bnd (read_proc_stat h) (\<lambda>cpu_usage.
     bnd (ps_by_cpu h) (\<lambda>lines.
     let top_cpu_processes = process_entries lines in
     bnd (py_getitem (PDict (collected self)) ''system'') (\<lambda>system.
     bnd (py_getitem system ''cpu_cores'') (\<lambda>cores.
     bnd (py_getitem system ''load_avg'') (\<lambda>load_avg.
     Inr (PDict
       [(''usage_percent'', PFloat cpu_usage), (''model'', PStr (cpu_model h)),
        (''cores'', cores), (''load_avg'', load_avg),
        (''top_processes'', PList top_cpu_processes)]))))))"

definition collect_cpu_metrics :: "host \<Rightarrow> system_metrics \<Rightarrow> exn option \<times> system_metrics" where
  "collect_cpu_metrics h self = guarded ''cpu'' (cpu_body h self) self"

text \<open>
  \<^verbatim>\<open>collect_memory_metrics\<close> (lines 134 to 196). The default of
  \<^verbatim>\<open>mem_info.get('MemAvailable', mem_info['MemFree'])\<close> is evaluated before the call.
\<close>

definition mem_info_getitem :: "(string \<times> int) list \<Rightarrow> string \<Rightarrow> exn + int" where
  "mem_info_getitem mem_info k =
     (case map_of mem_info k of Some v \<Rightarrow> Inr v | None \<Rightarrow> Inl (key_error k))"

definition mem_info_get :: "(string \<times> int) list \<Rightarrow> string \<Rightarrow> int \<Rightarrow> int" where
  "mem_info_get mem_info k dflt = (case map_of mem_info k of Some v \<Rightarrow> v | None \<Rightarrow> dflt)"

definition memory_body :: "host \<Rightarrow> exn + pyval" where
  "memory_body h =
     bnd (read_proc_meminfo h) (\<lambda>mem_info.
     bnd (mem_info_getitem mem_info ''MemTotal'') (\<lambda>total_mem.
     bnd (mem_info_getitem mem_info ''MemFree'') (\<lambda>mem_free.
     let available_mem = mem_info_get mem_info ''MemAvailable'' mem_free;
         used_mem = total_mem - available_mem in
     bnd (mem_usage_percent total_mem available_mem) (\<lambda>usage_percent.
     let swap_total = mem_info_get mem_info ''SwapTotal'' 0;
         swap_free = mem_info_get mem_info ''SwapFree'' 0;
         swap_used = swap_total - swap_free in
     bnd (swap_usage_percent swap_total swap_free) (\<lambda>swap_percent.
     bnd (ps_by_mem h) (\<lambda>lines.
     let top_mem_processes = process_entries lines in
     bnd (bytes_to_human total_mem) (\<lambda>total_human.
     bnd (bytes_to_human used_mem) (\<lambda>used_human.
     bnd (bytes_to_human available_mem) (\<lambda>available_human.
     bnd (bytes_to_human swap_total) (\<lambda>swap_total_human.
     bnd (bytes_to_human swap_used) (\<lambda>swap_used_human.
     Inr (PDict
       [(''total_bytes'', PInt total_mem), (''used_bytes'', PInt used_mem),
        (''available_bytes'', PInt available_mem), (''total_human'', PStr total_human),
        (''used_human'', PStr used_human), (''available_human'', PStr available_human),
        (''usage_percent'', PFloat usage_percent), (''swap_total_bytes'', PInt swap_total),
        (''swap_used_bytes'', PInt swap_used), (''swap_total_human'', PStr swap_total_human),
        (''swap_used_human'', PStr swap_used_human), (''swap_usage_percent'', swap_percent),
        (''top_processes'', PList top_mem_processes)]))))))))))))"

definition collect_memory_metrics :: "host \<Rightarrow> system_metrics \<Rightarrow> exn option \<times> system_metrics" where
  "collect_memory_metrics h self = guarded ''memory'' (memory_body h) self"

text \<open>\<^verbatim>\<open>collect_disk_metrics\<close> (lines 198 to 263).\<close>

definition disk_body :: "host \<Rightarrow> exn + pyval" where
  "disk_body h =
     bnd (df_h h) (\<lambda>lines.
     bnd (filesystems_of lines) (\<lambda>filesystems.
     bnd (df_i h) (\<lambda>inode_info.
     Inr (PDict
       [(''filesystems'', PList filesystems), (''inodes'', inode_info),
        (''large_files'', find_large_files h)]))))"

definition collect_disk_metrics :: "host \<Rightarrow> system_metrics \<Rightarrow> exn option \<times> system_metrics" where
  "collect_disk_metrics h self = guarded ''disk'' (disk_body h) self"

text \<open>
  \<^verbatim>\<open>collect_network_metrics\<close>, \<^verbatim>\<open>collect_service_metrics\<close> and
  \<^verbatim>\<open>collect_security_metrics\<close> (lines 265 to 442): the whole body is inside the
  \<^verbatim>\<open>try\<close>.
\<close>

definition collect_network_metrics :: "host \<Rightarrow> system_metrics \<Rightarrow> exn option \<times> system_metrics" where
  "collect_network_metrics h self = guarded ''network'' (network_body h) self"

definition collect_service_metrics :: "host \<Rightarrow> system_metrics \<Rightarrow> exn option \<times> system_metrics" where
  "collect_service_metrics h self = guarded ''services'' (services_body h) self"

definition collect_security_metrics :: "host \<Rightarrow> system_metrics \<Rightarrow> exn option \<times> system_metrics" where
  "collect_security_metrics h self = guarded ''security'' (security_body h) self"

text \<open>
  \<^verbatim>\<open>collect_all_metrics\<close> (lines 444 to 454) calls the seven collectors in order; an
  exception that leaves one of them leaves \<^verbatim>\<open>collect_all_metrics\<close> at that point.
\<close>

fun run_collectors ::
  "(system_metrics \<Rightarrow> exn option \<times> system_metrics) list \<Rightarrow> system_metrics
     \<Rightarrow> exn option \<times> system_metrics" where
  "run_collectors [] self = (None, self)"
| "run_collectors (c # cs) self =
     (case c self of
        (Some e, self') \<Rightarrow> (Some e, self')
      | (None, self') \<Rightarrow> run_collectors cs self')"

definition collect_all_metrics :: "host \<Rightarrow> system_metrics \<Rightarrow> exn option \<times> system_metrics" where
  "collect_all_metrics h self =
     run_collectors
       [collect_system_info h, collect_cpu_metrics h, collect_memory_metrics h,
        collect_disk_metrics h, collect_network_metrics h, collect_service_metrics h,
        collect_security_metrics h] self"

section \<open>The formulas of the specification\<close>

text \<open>
  The specification gives the memory usage percent as
  \<^verbatim>\<open>round((T - A) / T * 100, 1)\<close>. The formula is read as the Python expression it is
  written as, on integers \<open>T\<close> and \<open>A\<close>, outside any exception handling.
\<close>

definition spec_usage_percent :: "int \<Rightarrow> int \<Rightarrow> rat" where
  "spec_usage_percent T A = py_round1 (float_mul (fl (of_int (T - A) / of_int T)) 100)"

text \<open>
  The specification of the human-readable conversion: units B, KB, MB, GB, TB, PB in
  steps of 1024, one decimal place, stepping to the next unit while the value is at
  least 1024. Here the arithmetic is exact: \<open>spec_scale u us v\<close> holds the value
  \<open>v\<close> in unit \<open>u\<close>, with the larger units \<open>us\<close> still to come.
\<close>

fun spec_scale :: "string \<Rightarrow> string list \<Rightarrow> rat \<Rightarrow> rat \<times> string" where
  "spec_scale u [] v = (v, u)"
| "spec_scale u (u' # us) v = (if 1024 \<le> v then spec_scale u' us (v / 1024) else (v, u))"

definition spec_bytes_to_human :: "int \<Rightarrow> string" where
  "spec_bytes_to_human n =
     (case spec_scale ''B'' [''KB'', ''MB'', ''GB'', ''TB'', ''PB''] (of_int n) of
        (v, u) \<Rightarrow> format_1f v @ '' '' @ u)"

section \<open>Renderer\<close>

text \<open>
  \<^verbatim>\<open>HTMLReportGenerator\<close> holds the snapshot in \<^verbatim>\<open>self.metrics\<close>, a dictionary from
  group names to group values. Each method reads it and returns a string or raises.

  The static text of the templates is abbreviated: line breaks and indentation are
  dropped, the pictograph that opens a heading is dropped, and the style sheet is the
  constant \<open>style_sheet\<close>. Every replacement field is kept, in the order of the source.
  A method name loses its leading underscore.
\<close>

record html_report_generator =
  metrics :: "(string \<times> pyval) list"

definition metrics_get :: "html_report_generator \<Rightarrow> string \<Rightarrow> pyval \<Rightarrow> pyval" where
  "metrics_get self k dflt = (case map_of (metrics self) k of Some v \<Rightarrow> v | None \<Rightarrow> dflt)"

definition metrics_getitem :: "html_report_generator \<Rightarrow> string \<Rightarrow> exn + pyval" where
  "metrics_getitem self k = py_getitem (PDict (metrics self)) k"

definition bullet :: string where
  "bullet = [CHR 0xE2, CHR 0x97, CHR 0x8F]"

definition copyright_sign :: string where
  "copyright_sign = [CHR 0xC2, CHR 0xA9]"

definition style_sheet :: string where
  \<open>style_sheet = ''<style>...</style>''\<close>

subsection \<open>Status helpers (lines 1089 to 1106)\<close>

definition get_usage_status :: "pyval \<Rightarrow> int \<Rightarrow> int \<Rightarrow> exn + string" where
  "get_usage_status usage warning critical =
     bnd (py_ge usage critical) (\<lambda>c.
       if c then Inr ''critical''
       else bnd (py_ge usage warning) (\<lambda>w.
         if w then Inr ''warning'' else Inr ''ok''))"

definition get_load_status :: "pyval \<Rightarrow> pyval \<Rightarrow> exn + string" where
  "get_load_status load_avg cpu_cores =
     bnd (py_truediv load_avg cpu_cores) (\<lambda>normalized_load.
       if 2 \<le> normalized_load then Inr ''status-critical''
       else if 1 \<le> normalized_load then Inr ''status-warning''
       else Inr ''status-ok'')"

subsection \<open>Overall health (lines 701 to 717)\<close>

text \<open>
  The state of the three rules is the pair of \<^verbatim>\<open>overall_health\<close> and
  \<^verbatim>\<open>health_issues\<close>. The rules run in the order of the source: CPU, memory, then the
  loop over the filesystems, each overwriting \<^verbatim>\<open>overall_health\<close> when it fires.
\<close>

definition health_cpu ::
  "html_report_generator \<Rightarrow> string \<times> string list \<Rightarrow> exn + string \<times> string list" where
  "health_cpu self st =
     (case map_of (metrics self) ''cpu'' of
        None \<Rightarrow> Inr st
      | Some cpu \<Rightarrow>
          bnd (py_get cpu ''usage_percent'' (PInt 0)) (\<lambda>u.
          bnd (py_gt u 80) (\<lambda>b.
            if b then Inr (''warning'', snd st @ [''High CPU usage'']) else Inr st)))"

definition health_memory ::
  "html_report_generator \<Rightarrow> string \<times> string list \<Rightarrow> exn + string \<times> string list" where
  "health_memory self st =
     (case map_of (metrics self) ''memory'' of
        None \<Rightarrow> Inr st
      | Some memory \<Rightarrow>
          bnd (py_get memory ''usage_percent'' (PInt 0)) (\<lambda>u.
          bnd (py_gt u 85) (\<lambda>b.
            if b then Inr (''warning'', snd st @ [''High memory usage'']) else Inr st)))"

fun health_disk_loop ::
  "(pyval \<Rightarrow> string) \<Rightarrow> pyval list \<Rightarrow> string \<times> string list \<Rightarrow> exn + string \<times> string list" where
  "health_disk_loop R [] st = Inr st"
| "health_disk_loop R (fs # rest) st =
     bnd (py_get fs ''usage_percent'' (PInt 0)) (\<lambda>u.
     bnd (py_gt u 90) (\<lambda>b.
       if b then
         bnd (py_getitem fs ''mountpoint'') (\<lambda>mp.
           health_disk_loop R rest
             (''critical'', snd st @ [''Critical disk space on '' @ py_str R mp]))
       else health_disk_loop R rest st))"

definition health_disk ::
  "(pyval \<Rightarrow> string) \<Rightarrow> html_report_generator \<Rightarrow> string \<times> string list
     \<Rightarrow> exn + string \<times> string list" where
  "health_disk R self st =
     (case map_of (metrics self) ''disk'' of
        None \<Rightarrow> Inr st
      | Some disk \<Rightarrow>
          bnd (py_get disk ''filesystems'' (PList [])) (\<lambda>filesystems.
          bnd (py_iter filesystems) (\<lambda>fss.
            health_disk_loop R fss st)))"

definition determine_overall_health ::
  "(pyval \<Rightarrow> string) \<Rightarrow> html_report_generator \<Rightarrow> exn + string \<times> string list" where
  "determine_overall_health R self =
     bnd (health_cpu self (''ok'', [])) (\<lambda>st.
     bnd (health_memory self st) (\<lambda>st.
     health_disk R self st))"

subsection \<open>System overview (lines 696 to 749)\<close>

definition alert_of :: "string \<Rightarrow> string" where
  "alert_of overall_health =
     (if overall_health = ''ok'' then ''success''
      else if overall_health = ''warning'' then ''warning'' else ''danger'')"

definition health_text_of :: "string \<Rightarrow> string" where
  "health_text_of overall_health =
     (if overall_health = ''ok'' then ''Excellent''
      else if overall_health = ''warning'' then ''Needs Attention'' else ''Critical Issues'')"

definition issues_line :: "string list \<Rightarrow> string" where
  "issues_line health_issues =
     (if health_issues \<noteq> [] then ''<br>Issues: '' @ join_strs '', '' health_issues
      else ''<br>All systems operating normally'')"

definition generate_system_overview ::
  "(pyval \<Rightarrow> string) \<Rightarrow> html_report_generator \<Rightarrow> exn + string" where
  \<open>generate_system_overview R self =
     bnd (metrics_getitem self ''system'') (\<lambda>system.
     bnd (py_getitem system ''uptime_seconds'') (\<lambda>uptime_seconds.
     bnd (py_floordiv uptime_seconds 86400) (\<lambda>uptime_days.
     bnd (determine_overall_health R self) (\<lambda>(overall_health, health_issues).
     let health_class = ''status-'' @ overall_health;
         health_text = health_text_of overall_health in
     bnd (fstring R system
            [Lit ''<strong>OS:</strong> '', Key ''os_info'',
             Lit ''<br><strong>Kernel:</strong> '', Key ''kernel'',
             Lit ''<br><strong>Architecture:</strong> '', Key ''architecture'',
             Lit ''<br><strong>Uptime:</strong> '', Key ''uptime'',
             Lit ('' ('' @ py_str R uptime_days @ '' days)<br><strong>CPU Cores:</strong> ''),
             Key ''cpu_cores'']) (\<lambda>info.
     bnd (py_getitem system ''load_avg'') (\<lambda>load_avg.
     bnd (py_getitem load_avg ''1min'') (\<lambda>load1.
     bnd (py_getitem system ''cpu_cores'') (\<lambda>cpu_cores.
     bnd (get_load_status load1 cpu_cores) (\<lambda>load_status.
     bnd (fstring R load_avg
            [Key ''1min'',
             Lit ''</div><div class="metric-label">1 Minute Average</div><div style="margin-top: 15px; font-size: 0.9em;">5min: '',
             Key ''5min'', Lit '' | 15min: '', Key ''15min'']) (\<lambda>loads.
     Inr (concat
       [''<div class="alert alert-'', alert_of overall_health,
        ''"><strong>Overall System Health: <span class="'', health_class, ''">'',
        health_text, ''</span></strong>'', issues_line health_issues,
        ''</div><div class="metrics-grid"><div class="metric-card"><h3>System Information</h3><div style="line-height: 1.8;">'',
        info,
        ''</div></div><div class="metric-card"><h3>Load Average</h3><div class="metric-value '',
        load_status, ''">'', loads, ''</div></div></div>''])))))))))))\<close>

subsection \<open>Loops that append one fragment per element\<close>

fun rows :: "(pyval \<Rightarrow> exn + string) \<Rightarrow> pyval list \<Rightarrow> exn + string" where
  "rows f [] = Inr []"
| "rows f (x # xs) = bnd (f x) (\<lambda>r. bnd (rows f xs) (\<lambda>rs. Inr (r @ rs)))"

subsection \<open>Top processes table (lines 1055 to 1087)\<close>

definition process_row :: "(pyval \<Rightarrow> string) \<Rightarrow> pyval \<Rightarrow> exn + string" where
  \<open>process_row R process =
     fstring R process
       [Lit ''<tr><td>'', Key ''user'', Lit ''</td><td>'', Key ''pid'',
        Lit ''</td><td>'', Key ''cpu'', Lit ''</td><td>'', Key ''mem'',
        Lit ''</td><td style="font-family: monospace; font-size: 0.8em;">'', Key ''command'',
        Lit ''</td></tr>'']\<close>

definition generate_top_processes_table ::
  "(pyval \<Rightarrow> string) \<Rightarrow> pyval \<Rightarrow> string \<Rightarrow> exn + string" where
  \<open>generate_top_processes_table R processes metric_type =
     (if \<not> py_truthy processes then Inr []
      else
        bnd (py_take5 processes) (\<lambda>top5.
        bnd (py_iter top5) (\<lambda>ps.
        bnd (rows (process_row R) ps) (\<lambda>body.
        Inr (concat
          [''<h4 style="margin-top: 20px; color: #34495e;">Top '', metric_type,
           '' Processes</h4><table class="table"><thead><tr><th>User</th><th>PID</th><th>CPU%</th><th>MEM%</th><th>Command</th></tr></thead><tbody>'',
           body, ''</tbody></table>'']))))) \<close>

subsection \<open>Performance metrics (lines 751 to 804)\<close>

definition generate_performance_metrics ::
  "(pyval \<Rightarrow> string) \<Rightarrow> html_report_generator \<Rightarrow> exn + string" where
  \<open>generate_performance_metrics R self =
     (let cpu = metrics_get self ''cpu'' (PDict []);
          memory = metrics_get self ''memory'' (PDict []) in
      bnd (py_get cpu ''usage_percent'' (PInt 0)) (\<lambda>cpu_usage.
      bnd (get_usage_status cpu_usage 75 90) (\<lambda>cpu_status.
      bnd (py_get memory ''usage_percent'' (PInt 0)) (\<lambda>memory_usage.
      bnd (get_usage_status memory_usage 75 90) (\<lambda>memory_status.
      bnd (py_get memory ''swap_usage_percent'' (PInt 0)) (\<lambda>swap_usage.
      bnd (get_usage_status swap_usage 25 50) (\<lambda>swap_status.
      bnd (py_get cpu ''top_processes'' (PList [])) (\<lambda>cpu_processes.
      bnd (generate_top_processes_table R cpu_processes ''CPU'') (\<lambda>cpu_table.
      bnd (py_get memory ''used_human'' (PStr ''N/A'')) (\<lambda>used_human.
      bnd (py_get memory ''total_human'' (PStr ''N/A'')) (\<lambda>total_human.
      bnd (py_get memory ''top_processes'' (PList [])) (\<lambda>memory_processes.
      bnd (generate_top_processes_table R memory_processes ''Memory'') (\<lambda>memory_table.
      bnd (py_get memory ''swap_used_human'' (PStr ''N/A'')) (\<lambda>swap_used_human.
      bnd (py_get memory ''swap_total_human'' (PStr ''N/A'')) (\<lambda>swap_total_human.
      Inr (concat
        [''<h2 style="margin: 30px 0 20px 0; color: #2c3e50;">Performance Metrics</h2><div class="metrics-grid">'',
         ''<div class="metric-card"><h3>CPU Usage</h3><div class="metric-value status-'',
         cpu_status, ''">'', py_str R cpu_usage,
         ''%</div><div class="progress-bar"><div class="progress-fill progress-'',
         cpu_status, ''" style="width: '', py_str R cpu_usage,
         ''%"></div></div><div class="metric-label">Processor Utilization</div>'',
         cpu_table, ''</div>'',
         ''<div class="metric-card"><h3>Memory Usage</h3><div class="metric-value status-'',
         memory_status, ''">'', py_str R memory_usage,
         ''%</div><div class="progress-bar"><div class="progress-fill progress-'',
         memory_status, ''" style="width: '', py_str R memory_usage,
         ''%"></div></div><div class="metric-label">RAM Utilization</div><div style="margin-top: 10px; font-size: 0.9em;">Used: '',
         py_str R used_human, '' / Total: '', py_str R total_human, ''</div>'',
         memory_table, ''</div>'',
         ''<div class="metric-card"><h3>Swap Usage</h3><div class="metric-value status-'',
         swap_status, ''">'', py_str R swap_usage,
         ''%</div><div class="progress-bar"><div class="progress-fill progress-'',
         swap_status, ''" style="width: '', py_str R swap_usage,
         ''%"></div></div><div class="metric-label">Swap Utilization</div><div style="margin-top: 10px; font-size: 0.9em;">Used: '',
         py_str R swap_used_human, '' / Total: '', py_str R swap_total_human,
         ''</div></div></div>'']))))))))))))))))\<close>

subsection \<open>Disk analysis (lines 806 to 883)\<close>

definition filesystem_row :: "(pyval \<Rightarrow> string) \<Rightarrow> pyval \<Rightarrow> exn + string" where
  \<open>filesystem_row R fs =
     bnd (py_getitem fs ''status'') (\<lambda>status.
     let status_class = ''status-'' @ py_str R status in
     fstring R fs
       [Lit ''<tr><td>'', Key ''filesystem'', Lit ''</td><td>'', Key ''size'',
        Lit ''</td><td>'', Key ''used'', Lit ''</td><td>'', Key ''available'',
        Lit ''</td><td><div class="progress-bar" style="width: 100px; height: 15px;"><div class="progress-fill progress-'',
        Key ''status'', Lit ''" style="width: '', Key ''usage_percent'',
        Lit (''%"></div></div><span class="'' @ status_class @ ''">''), Key ''usage_percent'',
        Lit ''%</span></td><td>'', Key ''mountpoint'',
        Lit (''</td><td><span class="'' @ status_class @ ''">'' @ bullet @ ''</span></td></tr>'')])\<close>

definition large_file_row :: "(pyval \<Rightarrow> string) \<Rightarrow> pyval \<Rightarrow> exn + string" where
  \<open>large_file_row R file =
     fstring R file
       [Lit ''<tr><td>'', Key ''size'', Lit ''</td><td>'', Key ''date'',
        Lit ''</td><td style="font-family: monospace; font-size: 0.9em;">'', Key ''path'',
        Lit ''</td></tr>'']\<close>

definition filesystem_table :: "(pyval \<Rightarrow> string) \<Rightarrow> pyval \<Rightarrow> exn + string" where
  \<open>filesystem_table R filesystems =
     (if py_truthy filesystems then
        bnd (py_iter filesystems) (\<lambda>fss.
        bnd (rows (filesystem_row R) fss) (\<lambda>body.
        Inr (concat
          [''<table class="table">'',
           ''<thead><tr><th>Filesystem</th><th>Size</th><th>Used</th><th>Available</th><th>Usage</th><th>Mountpoint</th><th>Status</th></tr></thead><tbody>'',
           body, ''</tbody></table>''])))
      else Inr ''<p>No filesystem data available</p>'')\<close>

definition large_file_table :: "(pyval \<Rightarrow> string) \<Rightarrow> pyval \<Rightarrow> exn + string" where
  \<open>large_file_table R large_files =
     (if py_truthy large_files then
        bnd (py_iter large_files) (\<lambda>files.
        bnd (rows (large_file_row R) files) (\<lambda>body.
        Inr (concat
          [''<h4 style="margin-top: 25px; color: #34495e;">Large Files (>100MB in /var/log)</h4><table class="table"><thead><tr><th>Size</th><th>Date Modified</th><th>File Path</th></tr></thead><tbody>'',
           body, ''</tbody></table>''])))
      else Inr [])\<close>

definition generate_disk_analysis ::
  "(pyval \<Rightarrow> string) \<Rightarrow> html_report_generator \<Rightarrow> exn + string" where
  \<open>generate_disk_analysis R self =
     (let disk = metrics_get self ''disk'' (PDict []) in
      bnd (py_get disk ''filesystems'' (PList [])) (\<lambda>filesystems.
      bnd (filesystem_table R filesystems) (\<lambda>fs_html.
      bnd (py_get disk ''large_files'' (PList [])) (\<lambda>large_files.
      bnd (large_file_table R large_files) (\<lambda>lf_html.
      Inr (concat
        [''<h2 style="margin: 30px 0 20px 0; color: #2c3e50;">Disk Space Analysis</h2><div class="metric-card"><h3>Filesystem Usage</h3>'',
         fs_html, lf_html, ''</div>''])))))) \<close>

subsection \<open>Network status (lines 885 to 937)\<close>

definition interface_row :: "(pyval \<Rightarrow> string) \<Rightarrow> pyval \<Rightarrow> exn + string" where
  \<open>interface_row R interface =
     bnd (py_getitem interface ''status'') (\<lambda>status.
     let status_class = (if py_eq_str status ''UP'' then ''status-ok'' else ''status-critical'') in
     bnd (py_getitem interface ''addresses'') (\<lambda>addrs.
     bnd (if py_truthy addrs then py_join '', '' addrs else Inr ''No IP assigned'') (\<lambda>addresses.
     fstring R interface
       [Lit ''<div style="margin-bottom: 15px; padding: 10px; background: #f8f9fa; border-radius: 8px;"><strong>'',
        Key ''name'', Lit (''</strong> <span class="'' @ status_class @ ''">(''),
        Key ''status'',
        Lit ('')</span><br><small style="color: #7f8c8d;">'' @ addresses @ ''</small></div>'')])))\<close>

definition interface_list :: "(pyval \<Rightarrow> string) \<Rightarrow> pyval \<Rightarrow> exn + string" where
  \<open>interface_list R interfaces =
     (if py_truthy interfaces then
        bnd (py_iter interfaces) (\<lambda>ifs. rows (interface_row R) ifs)
      else Inr ''<p>No network interface data available</p>'')\<close>

definition generate_network_status ::
  "(pyval \<Rightarrow> string) \<Rightarrow> html_report_generator \<Rightarrow> exn + string" where
  \<open>generate_network_status R self =
     (let network = metrics_get self ''network'' (PDict []) in
      bnd (py_get network ''interfaces'' (PList [])) (\<lambda>interfaces.
      bnd (interface_list R interfaces) (\<lambda>if_html.
      bnd (py_get network ''default_gateway'' PNone) (\<lambda>default_gw.
      bnd (py_get network ''dns_status'' (PStr ''unknown'')) (\<lambda>dns_status.
      bnd (py_get network ''listening_ports'' (PInt 0)) (\<lambda>listening_ports.
      Inr (concat
        [''<h2 style="margin: 30px 0 20px 0; color: #2c3e50;">Network Status</h2><div class="metrics-grid"><div class="metric-card"><h3>Network Interfaces</h3>'',
         if_html, ''</div>'',
         ''<div class="metric-card"><h3>Connectivity Status</h3><div style="line-height: 2;"><strong>Default Gateway:</strong> <span class="'',
         (if py_truthy default_gw then ''status-ok'' else ''status-warning''), ''">'',
         (if py_truthy default_gw then py_str R default_gw else ''Not configured''),
         ''</span><br><strong>DNS Resolution:</strong> <span class="status-'',
         py_str R dns_status, ''">'',
         (if py_eq_str dns_status ''ok'' then ''Working'' else ''Failed''),
         ''</span><br><strong>Listening Services:</strong> <span class="status-ok">'',
         py_str R listening_ports, '' ports</span></div></div></div>'']))))))) \<close>

subsection \<open>Security status (lines 939 to 1002)\<close>

text \<open>
  The four cards of the source differ in the group they read, the key and default of the
  value they show, and their static text. \<open>security_card\<close> is one of them.
\<close>

definition security_card ::
  "(pyval \<Rightarrow> string) \<Rightarrow> pyval \<Rightarrow> string \<Rightarrow> string \<Rightarrow> pyval \<Rightarrow> string \<Rightarrow> string
     \<Rightarrow> exn + string" where
  \<open>security_card R security group_key value_key value_default title label =
     bnd (py_get security group_key (PDict [])) (\<lambda>g.
     bnd (py_get g value_key value_default) (\<lambda>v.
     bnd (py_get g ''health'' (PStr ''unknown'')) (\<lambda>health.
     Inr (concat
       [''<div class="metric-card"><h3>'', title, ''</h3><div class="metric-value status-'',
        py_str R health, ''">'', py_str R v, ''</div><div class="metric-label">'', label,
        ''</div></div>''])))) \<close>

definition generate_security_status ::
  "(pyval \<Rightarrow> string) \<Rightarrow> html_report_generator \<Rightarrow> exn + string" where
  \<open>generate_security_status R self =
     (let security = metrics_get self ''security'' (PDict []) in
      bnd (security_card R security ''selinux'' ''status'' (PStr ''Unknown'')
             ''SELinux Status'' ''Mandatory Access Control'') (\<lambda>selinux_html.
      bnd (security_card R security ''firewall'' ''status'' (PStr ''Unknown'')
             ''Firewall Status'' ''Network Protection'') (\<lambda>firewall_html.
      bnd (security_card R security ''updates'' ''available'' (PInt 0)
             ''System Updates'' ''Available Updates'') (\<lambda>updates_html.
      bnd (security_card R security ''failed_logins'' ''count'' (PInt 0)
             ''Failed Logins'' ''Last 24 Hours'') (\<lambda>logins_html.
      Inr (concat
        [''<h2 style="margin: 30px 0 20px 0; color: #2c3e50;">Security Status</h2><div class="metrics-grid">'',
         selinux_html, firewall_html, updates_html, logins_html, ''</div>''])))))) \<close>

subsection \<open>Services status (lines 1004 to 1053)\<close>

definition service_row :: "(pyval \<Rightarrow> string) \<Rightarrow> pyval \<Rightarrow> exn + string" where
  \<open>service_row R service =
     bnd (py_getitem service ''health'') (\<lambda>health.
     let status_class = ''status-'' @ py_str R health in
     bnd (py_getitem service ''enabled'') (\<lambda>enabled.
     let enabled_class =
           (if py_eq_str enabled ''enabled'' then ''status-ok'' else ''status-warning'') in
     fstring R service
       [Lit ''<tr><td><strong>'', Key ''name'',
        Lit (''</strong></td><td><span class="'' @ status_class @ ''">''), Key ''status'',
        Lit (''</span></td><td><span class="'' @ enabled_class @ ''">''), Key ''enabled'',
        Lit (''</span></td><td><span class="'' @ status_class @ ''">'' @ bullet
             @ ''</span></td></tr>'')]))\<close>

definition service_table :: "(pyval \<Rightarrow> string) \<Rightarrow> pyval \<Rightarrow> exn + string" where
  \<open>service_table R critical_services =
     (if py_truthy critical_services then
        bnd (py_iter critical_services) (\<lambda>services.
        bnd (rows (service_row R) services) (\<lambda>body.
        Inr (concat
          [''<table class="table"><thead><tr><th>Service</th><th>Status</th><th>Enabled</th><th>Health</th></tr></thead><tbody>'',
           body, ''</tbody></table>''])))
      else Inr ''<p>No service data available</p>'')\<close>

definition generate_services_status ::
  "(pyval \<Rightarrow> string) \<Rightarrow> html_report_generator \<Rightarrow> exn + string" where
  \<open>generate_services_status R self =
     (let services = metrics_get self ''services'' (PDict []) in
      bnd (py_get services ''critical_services'' (PList [])) (\<lambda>critical_services.
      bnd (py_get services ''failed_count'' (PInt 0)) (\<lambda>failed_count.
      bnd (py_len critical_services) (\<lambda>n.
      bnd (service_table R critical_services) (\<lambda>table_html.
      Inr (concat
        [''<h2 style="margin: 30px 0 20px 0; color: #2c3e50;">System Services</h2><div class="alert alert-'',
         (if py_eq_int failed_count 0 then ''success'' else ''warning''),
         ''"><strong>Service Status Summary:</strong> '', show_int n,
         '' critical services monitored, '', py_str R failed_count,
         '' failed services detected</div><div class="metric-card"><h3>Critical Services Status</h3>'',
         table_html, ''</div>''])))))) \<close>

subsection \<open>The document (lines 462 to 694)\<close>

text \<open>
  \<^verbatim>\<open>generate_html\<close> builds the six sections in order, then reads the host name and the
  time stamp of the system group and fills the template. The method is modelled with the
  object it runs on: it returns its result together with the generator after the call.
  No statement of the method or of the six it calls assigns to \<^verbatim>\<open>self.metrics\<close> or
  calls a mutating method on a value reached from it; the lists and strings they build
  are local.
\<close>

definition html_document ::
  "(pyval \<Rightarrow> string) \<Rightarrow> html_report_generator \<Rightarrow> exn + string" where
  \<open>html_document R self =
     bnd (generate_system_overview R self) (\<lambda>system_overview.
     bnd (generate_performance_metrics R self) (\<lambda>performance_metrics.
     bnd (generate_disk_analysis R self) (\<lambda>disk_analysis.
     bnd (generate_network_status R self) (\<lambda>network_status.
     bnd (generate_security_status R self) (\<lambda>security_status.
     bnd (generate_services_status R self) (\<lambda>services_status.
     bnd (metrics_getitem self ''system'') (\<lambda>system.
     bnd (py_getitem system ''hostname'') (\<lambda>hostname.
     bnd (py_getitem system ''timestamp'') (\<lambda>timestamp.
     Inr (concat
       [''<!DOCTYPE html><html lang="en"><head><meta charset="UTF-8"><meta name="viewport" content="width=device-width, initial-scale=1.0"><title>System Health Dashboard - '',
        py_str R hostname, ''</title>'', style_sheet,
        ''</head><body><div class="dashboard"><div class="header"><h1>System Health Dashboard</h1><div class="subtitle">'',
        py_str R hostname, '' | '', py_str R timestamp,
        ''</div></div><div class="content">'',
        system_overview, performance_metrics, disk_analysis, network_status,
        security_status, services_status,
        ''</div><div class="footer">Generated by Enterprise Linux Toolkit | '', copyright_sign,
        '' 2024 Gabriel - Senior Linux Systems Administrator</div></div></body></html>''])))))))))) \<close>

definition generate_html ::
  "(pyval \<Rightarrow> string) \<Rightarrow> html_report_generator \<Rightarrow> (exn + string) \<times> html_report_generator" where
  "generate_html R self = (html_document R self, self)"

section \<open>Returning without an exception\<close>

definition ok :: "exn + 'a \<Rightarrow> bool" where
  "ok m = (case m of Inl e \<Rightarrow> False | Inr x \<Rightarrow> True)"

section \<open>Snapshots the collector can produce\<close>

text \<open>
  The shape of a group as its collector writes it, as far as the renderer depends on it.
  Every key the renderer reads with a default (\<^verbatim>\<open>.get\<close>) is optional here, so the
  empty dictionary and the error marker \<^verbatim>\<open>{'error': message}\<close> have the shape of every
  group but the system group, whose keys the renderer reads by subscript.
\<close>

fun is_num :: "pyval \<Rightarrow> bool" where
  "is_num (PNum n) = True"
| "is_num v = False"

fun is_str :: "pyval \<Rightarrow> bool" where
  "is_str (PStr s) = True"
| "is_str v = False"

fun is_dict :: "pyval \<Rightarrow> bool" where
  "is_dict (PDict d) = True"
| "is_dict v = False"

fun has_keys :: "string list \<Rightarrow> pyval \<Rightarrow> bool" where
  "has_keys ks (PDict d) = list_all (\<lambda>k. map_of d k \<noteq> None) ks"
| "has_keys ks v = False"

definition opt_key :: "(string \<times> pyval) list \<Rightarrow> string \<Rightarrow> (pyval \<Rightarrow> bool) \<Rightarrow> bool" where
  "opt_key d k P = (case map_of d k of None \<Rightarrow> True | Some v \<Rightarrow> P v)"

fun list_of :: "(pyval \<Rightarrow> bool) \<Rightarrow> pyval \<Rightarrow> bool" where
  "list_of P (PList xs) = list_all P xs"
| "list_of P v = False"

fun dict_with :: "((string \<times> pyval) list \<Rightarrow> bool) \<Rightarrow> pyval \<Rightarrow> bool" where
  "dict_with P (PDict d) = P d"
| "dict_with P v = False"

definition wf_process :: "pyval \<Rightarrow> bool" where
  "wf_process = has_keys [''user'', ''pid'', ''cpu'', ''mem'', ''command'']"

definition wf_cpu :: "pyval \<Rightarrow> bool" where
  "wf_cpu = dict_with (\<lambda>d.
     opt_key d ''usage_percent'' is_num \<and> opt_key d ''top_processes'' (list_of wf_process))"

definition wf_memory :: "pyval \<Rightarrow> bool" where
  "wf_memory = dict_with (\<lambda>d.
     opt_key d ''usage_percent'' is_num \<and> opt_key d ''swap_usage_percent'' is_num
     \<and> opt_key d ''top_processes'' (list_of wf_process))"

definition wf_filesystem :: "pyval \<Rightarrow> bool" where
  "wf_filesystem v =
     (has_keys [''filesystem'', ''size'', ''used'', ''available'', ''usage_percent'',
                ''mountpoint'', ''status''] v
      \<and> dict_with (\<lambda>d. opt_key d ''usage_percent'' is_num) v)"

definition wf_large_file :: "pyval \<Rightarrow> bool" where
  "wf_large_file = has_keys [''size'', ''date'', ''path'']"

definition wf_disk :: "pyval \<Rightarrow> bool" where
  "wf_disk = dict_with (\<lambda>d.
     opt_key d ''filesystems'' (list_of wf_filesystem)
     \<and> opt_key d ''large_files'' (list_of wf_large_file))"

definition wf_interface :: "pyval \<Rightarrow> bool" where
  "wf_interface v =
     (has_keys [''name'', ''status'', ''addresses''] v
      \<and> dict_with (\<lambda>d. opt_key d ''addresses'' (list_of is_str)) v)"

definition wf_network :: "pyval \<Rightarrow> bool" where
  "wf_network = dict_with (\<lambda>d. opt_key d ''interfaces'' (list_of wf_interface))"

definition wf_security :: "pyval \<Rightarrow> bool" where
  "wf_security = dict_with (\<lambda>d.
     opt_key d ''selinux'' is_dict \<and> opt_key d ''firewall'' is_dict
     \<and> opt_key d ''updates'' is_dict \<and> opt_key d ''failed_logins'' is_dict)"

definition wf_service :: "pyval \<Rightarrow> bool" where
  "wf_service = has_keys [''name'', ''status'', ''enabled'', ''health'']"

definition wf_services :: "pyval \<Rightarrow> bool" where
  "wf_services = dict_with (\<lambda>d. opt_key d ''critical_services'' (list_of wf_service))"

text \<open>
  The system group as \<^verbatim>\<open>collect_system_info\<close> writes it: the load averages are floats
  (\<^verbatim>\<open>round(x, 2)\<close>), the core count a positive integer, the uptime a number.
\<close>

fun is_float :: "pyval \<Rightarrow> bool" where
  "is_float (PNum (NFloat q)) = True"
| "is_float v = False"

fun is_core_count :: "pyval \<Rightarrow> bool" where
  "is_core_count (PNum (NInt c)) = (0 < c \<and> c < 2 ^ 53)"
| "is_core_count v = False"

definition wf_load_avg :: "pyval \<Rightarrow> bool" where
  "wf_load_avg v =
     (has_keys [''1min'', ''5min'', ''15min''] v
      \<and> dict_with (\<lambda>d. opt_key d ''1min'' is_float) v)"

definition wf_system :: "pyval \<Rightarrow> bool" where
  "wf_system v =
     (has_keys [''hostname'', ''timestamp'', ''os_info'', ''kernel'', ''architecture'',
                ''uptime'', ''uptime_seconds'', ''load_avg'', ''cpu_cores''] v
      \<and> dict_with (\<lambda>d.
            opt_key d ''uptime_seconds'' is_num \<and> opt_key d ''load_avg'' wf_load_avg
            \<and> opt_key d ''cpu_cores'' is_core_count) v)"

definition wf_snapshot :: "html_report_generator \<Rightarrow> bool" where
  "wf_snapshot self =
     (has_keys [''system''] (PDict (metrics self))
      \<and> opt_key (metrics self) ''system'' wf_system
      \<and> opt_key (metrics self) ''cpu'' wf_cpu
      \<and> opt_key (metrics self) ''memory'' wf_memory
      \<and> opt_key (metrics self) ''disk'' wf_disk
      \<and> opt_key (metrics self) ''network'' wf_network
      \<and> opt_key (metrics self) ''security'' wf_security
      \<and> opt_key (metrics self) ''services'' wf_services)"

text \<open>
  A group is degraded when it is absent from the snapshot, empty, or the error marker
  that a failed collector leaves.
\<close>

fun is_degraded :: "pyval option \<Rightarrow> bool" where
  "is_degraded None = True"
| "is_degraded (Some (PDict [])) = True"
| "is_degraded (Some (PDict [(k, PStr message)])) = (k = ''error'')"
| "is_degraded (Some v) = False"

definition degraded :: "html_report_generator \<Rightarrow> string \<Rightarrow> bool" where
  "degraded self g = is_degraded (map_of (metrics self) g)"

section \<open>The specification's rule for the overall health\<close>

text \<open>
  The specification's words for the page-level health: critical if any filesystem has a
  usage percent of at least 90; otherwise warning if the CPU usage percent is above 80 or
  the memory usage percent is above 85; otherwise ok. The rule is written with the test
  on a filesystem's usage as a parameter, so that the rule of the specification,
  \<open>spec_overall_health\<close>, can be put beside the rule the code follows.
\<close>

definition usage_of :: "pyval \<Rightarrow> rat" where
  "usage_of v =
     (case py_get v ''usage_percent'' (PInt 0) of Inr (PNum n) \<Rightarrow> num_val n | _ \<Rightarrow> 0)"

definition snapshot_filesystems :: "html_report_generator \<Rightarrow> pyval list" where
  "snapshot_filesystems self =
     (case py_get (metrics_get self ''disk'' (PDict [])) ''filesystems'' (PList []) of
        Inr (PList fss) \<Rightarrow> fss
      | _ \<Rightarrow> [])"

definition overall_health_rule :: "(rat \<Rightarrow> bool) \<Rightarrow> html_report_generator \<Rightarrow> string" where
  "overall_health_rule disk_critical self =
     (if list_ex (\<lambda>fs. disk_critical (usage_of fs)) (snapshot_filesystems self) then ''critical''
      else if 80 < usage_of (metrics_get self ''cpu'' (PDict []))
              \<or> 85 < usage_of (metrics_get self ''memory'' (PDict [])) then ''warning''
      else ''ok'')"

definition spec_overall_health :: "html_report_generator \<Rightarrow> string" where
  "spec_overall_health = overall_health_rule (\<lambda>u. 90 \<le> u)"

section \<open>Example snapshots\<close>

text \<open>
  A system group as \<^verbatim>\<open>collect_system_info\<close> writes it, and snapshots around it: one
  with a single filesystem and no CPU or memory load, one with a single process in the
  CPU group.
\<close>

text \<open>
  The closed examples need a value for the parameter \<open>R\<close>. \<open>example_repr\<close> is
  Python's \<^verbatim>\<open>repr\<close> on the floats that \<^verbatim>\<open>round(x, 1)\<close> returns (of magnitude below
  \<open>10 ^ 16\<close>), the only values of the examples that are printed through \<open>R\<close>.
\<close>

fun example_repr :: "pyval \<Rightarrow> string" where
  "example_repr (PNum (NFloat q)) = format_1f q"
| "example_repr v = []"

definition example_system :: pyval where
  "example_system = PDict
     [(''hostname'', PStr ''web01''), (''fqdn'', PStr ''web01.example.com''),
      (''os_info'', PStr ''Red Hat Enterprise Linux release 9.3''),
      (''kernel'', PStr ''5.14.0''), (''architecture'', PStr ''x86_64''),
      (''uptime'', PStr ''3d 4h''), (''uptime_seconds'', PInt 273600),
      (''load_avg'', PDict [(''1min'', PFloat 0), (''5min'', PFloat 0), (''15min'', PFloat 0)]),
      (''cpu_cores'', PInt 4), (''timestamp'', PStr ''2024-01-01 00:00:00'')]"

definition filesystem_at :: "int \<Rightarrow> string \<Rightarrow> pyval" where
  "filesystem_at usage_percent mountpoint = PDict
     [(''filesystem'', PStr ''/dev/sda1''), (''size'', PStr ''50G''), (''used'', PStr ''45G''),
      (''available'', PStr ''5G''), (''usage_percent'', PInt usage_percent),
      (''mountpoint'', PStr mountpoint), (''status'', PStr (fs_status usage_percent))]"

definition snapshot_with_filesystem :: "int \<Rightarrow> string \<Rightarrow> html_report_generator" where
  "snapshot_with_filesystem usage_percent mountpoint = \<lparr>metrics =
     [(''system'', example_system),
      (''cpu'', PDict [(''usage_percent'', PFloat 0)]),
      (''memory'', PDict [(''usage_percent'', PFloat 0)]),
      (''disk'', PDict [(''filesystems'', PList [filesystem_at usage_percent mountpoint])])]\<rparr>"

definition snapshot_with_process :: "pyval \<Rightarrow> html_report_generator" where
  "snapshot_with_process process = \<lparr>metrics =
     [(''system'', example_system),
      (''cpu'', PDict [(''usage_percent'', PFloat 0), (''top_processes'', PList [process])])]\<rparr>"

definition snapshot_without_system :: html_report_generator where
  "snapshot_without_system = \<lparr>metrics =
     [(''cpu'', PDict [(''usage_percent'', PFloat 0)]),
      (''memory'', PDict [(''usage_percent'', PFloat 0)])]\<rparr>"

definition degraded_snapshot :: html_report_generator where
  "degraded_snapshot = \<lparr>metrics =
     [(''system'', example_system),
      (''cpu'', PDict [(''error'', PStr ''[Errno 13] Permission denied'')]),
      (''memory'', PDict []),
      (''disk'', PDict [(''error'', PStr ''Command returned non-zero exit status 1.'')]),
      (''services'', PDict [])]\<rparr>"

definition ps_line :: "string \<Rightarrow> string list" where
  "ps_line command =
     [''root'', ''4242'', ''0.0'', ''0.1'', ''2792'', ''1040'', ''?'', ''Ss'', ''10:00'', ''0:00'',
      command]"

text \<open>
  What the performance and the security section show when their groups are degraded:
  the templates with the defaults of the \<^verbatim>\<open>.get\<close> calls filled in.
\<close>

definition performance_defaults :: string where
  \<open>performance_defaults = concat
        [''<h2 style="margin: 30px 0 20px 0; color: #2c3e50;">Performance Metrics</h2><div class="metrics-grid">'',
         ''<div class="metric-card"><h3>CPU Usage</h3><div class="metric-value status-'',
         ''ok'', ''">'', ''0'',
         ''%</div><div class="progress-bar"><div class="progress-fill progress-'',
         ''ok'', ''" style="width: '', ''0'',
         ''%"></div></div><div class="metric-label">Processor Utilization</div>'',
         [], ''</div>'',
         ''<div class="metric-card"><h3>Memory Usage</h3><div class="metric-value status-'',
         ''ok'', ''">'', ''0'',
         ''%</div><div class="progress-bar"><div class="progress-fill progress-'',
         ''ok'', ''" style="width: '', ''0'',
         ''%"></div></div><div class="metric-label">RAM Utilization</div><div style="margin-top: 10px; font-size: 0.9em;">Used: '',
         ''N/A'', '' / Total: '', ''N/A'', ''</div>'',
         [], ''</div>'',
         ''<div class="metric-card"><h3>Swap Usage</h3><div class="metric-value status-'',
         ''ok'', ''">'', ''0'',
         ''%</div><div class="progress-bar"><div class="progress-fill progress-'',
         ''ok'', ''" style="width: '', ''0'',
         ''%"></div></div><div class="metric-label">Swap Utilization</div><div style="margin-top: 10px; font-size: 0.9em;">Used: '',
         ''N/A'', '' / Total: '', ''N/A'',
         ''</div></div></div>'']\<close>

definition security_defaults :: string where
  \<open>security_defaults = concat
        [''<h2 style="margin: 30px 0 20px 0; color: #2c3e50;">Security Status</h2><div class="metrics-grid">'',
         ''<div class="metric-card"><h3>'', ''SELinux Status'', ''</h3><div class="metric-value status-'',
         ''unknown'', ''">'', ''Unknown'', ''</div><div class="metric-label">'', ''Mandatory Access Control'',
         ''</div></div>'',
         ''<div class="metric-card"><h3>'', ''Firewall Status'', ''</h3><div class="metric-value status-'',
         ''unknown'', ''">'', ''Unknown'', ''</div><div class="metric-label">'', ''Network Protection'',
         ''</div></div>'',
         ''<div class="metric-card"><h3>'', ''System Updates'', ''</h3><div class="metric-value status-'',
         ''unknown'', ''">'', ''0'', ''</div><div class="metric-label">'', ''Available Updates'',
         ''</div></div>'',
         ''<div class="metric-card"><h3>'', ''Failed Logins'', ''</h3><div class="metric-value status-'',
         ''unknown'', ''">'', ''0'', ''</div><div class="metric-label">'', ''Last 24 Hours'',
         ''</div></div>'',
         ''</div>'']\<close>

text \<open>
  A host on which \<^verbatim>\<open>/proc/uptime\<close> cannot be read, every other probe answering, and
  a collector as \<^verbatim>\<open>__init__\<close> leaves it.
\<close>

definition new_collector :: system_metrics where
  "new_collector = \<lparr>hostname = ''web01'', fqdn = ''web01.example.com'',
     timestamp = ''2024-01-01 00:00:00'', collected = []\<rparr>"

definition answering_host :: host where
  "answering_host = \<lparr>
     read_redhat_release = Inr ''Red Hat Enterprise Linux release 9.3'',
     platform_platform = ''Linux-5.14.0-x86_64'',
     read_proc_uptime = Inr 273600,
     getloadavg = Inr (0, 0, 0),
     cpu_count = PInt 4,
     platform_release = ''5.14.0'',
     platform_machine = ''x86_64'',
     read_proc_stat = Inr 0,
     ps_by_cpu = Inr [],
     cpu_model = ''Unknown'',
     read_proc_meminfo = Inr [(''MemTotal'', 4096), (''MemFree'', 4096)],
     ps_by_mem = Inr [],
     df_h = Inr [],
     df_i = Inr (PDict []),
     find_large_files = PList [],
     network_body = Inr (PDict []),
     services_body = Inr (PDict []),
     security_body = Inr (PDict [])\<rparr>"

definition host_without_uptime :: host where
  "host_without_uptime =
     answering_host\<lparr>read_proc_uptime := Inl (Exn OSError ''[Errno 5] Input/output error'')\<rparr>"

section \<open>The renderer over a store of objects\<close>

text \<open>
  The definitions above take the snapshot as a value. Whether rendering changes the
  snapshot, and whether a second rendering sees what the first saw, cannot be asked of
  them: a value has no identity and nothing can be assigned to it. The renderer is
  therefore modelled a second time, statement by statement, over a store of objects.

  A list or a dictionary is an object in the store, and a value that is one of them is a
  reference to it: two variables may name the same object, and an update through one is
  seen through the other. Numbers, strings and \<^verbatim>\<open>None\<close> are immutable and are held as
  they are. \<^verbatim>\<open>self.metrics\<close> is the attribute of the generator; it holds a reference to
  the dictionary of the snapshot.

  A statement is a function from the world before it to its result, or the exception it
  raises, and the world after it; a statement that does not return has no result
  (\<open>None\<close>).
\<close>

datatype val = VNone | VNum num | VStr string | VRef nat

datatype obj = OList "val list" | ODict "(string \<times> val) list"

record world =
  self_metrics :: val
  store :: "obj list"

type_synonym 'a prog = "world \<Rightarrow> ((exn + 'a) \<times> world) option"

definition ret :: "'a \<Rightarrow> 'a prog" where
  "ret x s = Some (Inr x, s)"

definition seq :: "'a prog \<Rightarrow> ('a \<Rightarrow> 'b prog) \<Rightarrow> 'b prog" where
  "seq m f s =
     (case m s of
        None \<Rightarrow> None
      | Some (r, s') \<Rightarrow> (case r of Inl e \<Rightarrow> Some (Inl e, s') | Inr x \<Rightarrow> f x s'))"

text \<open>
  An expression that only reads the store, the read of \<^verbatim>\<open>self.metrics\<close>, the
  allocation of a new object (a display \<^verbatim>\<open>[]\<close> or \<^verbatim>\<open>{}\<close>, a slice), and
  \<^verbatim>\<open>list.append\<close>, the one operation of the renderer that writes to an object.
\<close>

definition reads :: "(obj list \<Rightarrow> exn + 'a) \<Rightarrow> 'a prog" where
  "reads f s = Some (f (store s), s)"

definition read_self_metrics :: "val prog" where
  "read_self_metrics s = Some (Inr (self_metrics s), s)"

definition alloc :: "obj \<Rightarrow> val prog" where
  "alloc c s = Some (Inr (VRef (length (store s))), s\<lparr>store := store s @ [c]\<rparr>)"

fun append_st :: "val \<Rightarrow> val \<Rightarrow> unit prog" where
  "append_st (VRef a) x = (\<lambda>s.
     (case store s ! a of
        OList xs \<Rightarrow> Some (Inr (), s\<lparr>store := (store s)[a := OList (xs @ [x])]\<rparr>)
      | ODict d \<Rightarrow> Some (Inl (Exn AttributeError ''object has no attribute append''), s)))"
| "append_st v x = (\<lambda>s. Some (Inl (Exn AttributeError ''object has no attribute append''), s))"

subsection \<open>Operations that read\<close>

text \<open>
  The operations of section \<open>Python operations on snapshot values\<close> once more, on a
  value and the store it refers to, with the same exceptions.
\<close>

fun subscript :: "obj list \<Rightarrow> val \<Rightarrow> string \<Rightarrow> exn + val" where
  "subscript h (VRef a) k =
     (case h ! a of
        ODict d \<Rightarrow> (case map_of d k of Some x \<Rightarrow> Inr x | None \<Rightarrow> Inl (key_error k))
      | OList xs \<Rightarrow> Inl (Exn TypeError ''list indices must be integers or slices, not str''))"
| "subscript h (VStr s) k = Inl (Exn TypeError ''string indices must be integers'')"
| "subscript h v k = Inl (Exn TypeError ''object is not subscriptable'')"

text \<open>
  \<^verbatim>\<open>v.get\<close>: only a dictionary has the method. \<^verbatim>\<open>v.get(k, default)\<close> looks the method
  up, evaluates the default, and then calls.
\<close>

fun get_method :: "obj list \<Rightarrow> val \<Rightarrow> exn + unit" where
  "get_method h (VRef a) =
     (case h ! a of
        ODict d \<Rightarrow> Inr ()
      | OList xs \<Rightarrow> Inl (Exn AttributeError ''object has no attribute get''))"
| "get_method h v = Inl (Exn AttributeError ''object has no attribute get'')"

fun get_call :: "obj list \<Rightarrow> val \<Rightarrow> string \<Rightarrow> val \<Rightarrow> exn + val" where
  "get_call h (VRef a) k dflt =
     (case h ! a of
        ODict d \<Rightarrow> Inr (case map_of d k of Some x \<Rightarrow> x | None \<Rightarrow> dflt)
      | OList xs \<Rightarrow> Inl (Exn AttributeError ''object has no attribute get''))"
| "get_call h v k dflt = Inl (Exn AttributeError ''object has no attribute get'')"

text \<open>\<^verbatim>\<open>k in v\<close> for a string \<open>k\<close>.\<close>

fun contains :: "obj list \<Rightarrow> val \<Rightarrow> string \<Rightarrow> exn + bool" where
  "contains h (VRef a) k =
     (case h ! a of
        ODict d \<Rightarrow> Inr (map_of d k \<noteq> None)
      | OList xs \<Rightarrow> Inr (VStr k \<in> set xs))"
| "contains h (VStr s) k = Inr (sublist k s)"
| "contains h v k = Inl (Exn TypeError ''argument is not iterable'')"

fun gt_val :: "val \<Rightarrow> int \<Rightarrow> exn + bool" where
  "gt_val (VNum n) c = Inr (of_int c < num_val n)"
| "gt_val v c = Inl (Exn TypeError ''> not supported between instances'')"

fun ge_val :: "val \<Rightarrow> int \<Rightarrow> exn + bool" where
  "ge_val (VNum n) c = Inr (of_int c \<le> num_val n)"
| "ge_val v c = Inl (Exn TypeError ''>= not supported between instances'')"

fun eq_int_val :: "val \<Rightarrow> int \<Rightarrow> bool" where
  "eq_int_val (VNum n) c = (num_val n = of_int c)"
| "eq_int_val v c = False"

fun eq_str_val :: "val \<Rightarrow> string \<Rightarrow> bool" where
  "eq_str_val (VStr s) c = (s = c)"
| "eq_str_val v c = False"

fun truthy :: "obj list \<Rightarrow> val \<Rightarrow> bool" where
  "truthy h VNone = False"
| "truthy h (VNum n) = (num_val n \<noteq> 0)"
| "truthy h (VStr s) = (s \<noteq> [])"
| "truthy h (VRef a) = (case h ! a of OList xs \<Rightarrow> xs \<noteq> [] | ODict d \<Rightarrow> d \<noteq> [])"

fun len_val :: "obj list \<Rightarrow> val \<Rightarrow> exn + int" where
  "len_val h (VRef a) =
     (case h ! a of OList xs \<Rightarrow> Inr (int (length xs)) | ODict d \<Rightarrow> Inr (int (length d)))"
| "len_val h (VStr s) = Inr (int (str_len s))"
| "len_val h v = Inl (Exn TypeError ''object has no len()'')"

fun floordiv_val :: "val \<Rightarrow> int \<Rightarrow> exn + val" where
  "floordiv_val (VNum (NInt i)) c =
     (if c = 0 then Inl (Exn ZeroDivisionError ''integer division or modulo by zero'')
      else Inr (VNum (NInt (i div c))))"
| "floordiv_val (VNum (NFloat q)) c =
     (if c = 0 then Inl (Exn ZeroDivisionError ''float divmod()'')
      else bnd (float_of_int c) (\<lambda>y. Inr (VNum (NFloat (float_floordiv q y)))))"
| "floordiv_val v c = Inl (Exn TypeError ''unsupported operand type(s) for //'')"

fun truediv_val :: "val \<Rightarrow> val \<Rightarrow> exn + rat" where
  "truediv_val (VNum (NInt a)) (VNum (NInt b)) = int_truediv a b"
| "truediv_val (VNum a) (VNum b) =
     bnd (num_to_float a) (\<lambda>x. bnd (num_to_float b) (\<lambda>y. float_truediv x y))"
| "truediv_val a b = Inl (Exn TypeError ''unsupported operand type(s) for /'')"

text \<open>
  The elements an iteration over \<open>v\<close> yields: the elements of a list, the keys of a
  dictionary, the characters of a string. \<^verbatim>\<open>sep.join(v)\<close> takes them all and then asks
  each to be a string.
\<close>

fun elements :: "obj list \<Rightarrow> val \<Rightarrow> exn + val list" where
  "elements h (VRef a) =
     (case h ! a of OList xs \<Rightarrow> Inr xs | ODict d \<Rightarrow> Inr (map (\<lambda>kv. VStr (fst kv)) d))"
| "elements h (VStr s) = Inr (map VStr (chars s))"
| "elements h v = Inl (Exn TypeError ''object is not iterable'')"

fun strs_of_vals :: "val list \<Rightarrow> exn + string list" where
  "strs_of_vals [] = Inr []"
| "strs_of_vals (VStr s # vs) = bnd (strs_of_vals vs) (\<lambda>ss. Inr (s # ss))"
| "strs_of_vals (v # vs) = Inl (Exn TypeError ''sequence item: expected str instance'')"

definition join_val :: "obj list \<Rightarrow> string \<Rightarrow> val \<Rightarrow> exn + string" where
  "join_val h sep v =
     bnd (elements h v) (\<lambda>xs. bnd (strs_of_vals xs) (\<lambda>ss. Inr (join_strs sep ss)))"

text \<open>
  The value a reference stands for: the object it refers to, with the values its elements
  stand for, down to \<open>n\<close> objects deep and never through an object whose address is in
  \<open>W\<close>. There is none (\<open>None\<close>) when an object is deeper than \<open>n\<close>, as under a
  container that contains itself, or when the way leads through \<open>W\<close>.
\<close>

fun reify :: "nat set \<Rightarrow> nat \<Rightarrow> obj list \<Rightarrow> val \<Rightarrow> pyval option" where
  "reify W n h VNone = Some PNone"
| "reify W n h (VNum x) = Some (PNum x)"
| "reify W n h (VStr x) = Some (PStr x)"
| "reify W 0 h (VRef a) = None"
| "reify W (Suc n) h (VRef a) =
     (if a < length h \<and> a \<notin> W then
        (case h ! a of
           OList xs \<Rightarrow> map_option PList (those (map (reify W n h) xs))
         | ODict d \<Rightarrow>
             map_option PDict
               (those (map (\<lambda>kv. map_option (Pair (fst kv)) (reify W n h (snd kv))) d)))
      else None)"

definition value_of :: "obj list \<Rightarrow> val \<Rightarrow> pyval option" where
  "value_of h v = reify {} (length h) h v"

text \<open>
  \<^verbatim>\<open>str(v)\<close>, and the formatting of a replacement field of an f-string, which is the
  same for the values of a snapshot. The text of a container is its \<^verbatim>\<open>repr\<close>, which
  reads the objects below it. A container that contains itself has no value in the
  model and its text is left empty here; Python prints an ellipsis for the inner
  occurrence.
\<close>

definition str_val :: "(pyval \<Rightarrow> string) \<Rightarrow> obj list \<Rightarrow> val \<Rightarrow> string" where
  "str_val R h v = (case value_of h v of Some p \<Rightarrow> py_str R p | None \<Rightarrow> [])"

text \<open>\<^verbatim>\<open>v[:5]\<close> makes a new list of the first five elements.\<close>

fun slice5 :: "val \<Rightarrow> val prog" where
  "slice5 (VRef a) = (\<lambda>s.
     (case store s ! a of
        OList xs \<Rightarrow> alloc (OList (take 5 xs)) s
      | ODict d \<Rightarrow> Some (Inl (Exn TypeError ''object is not subscriptable''), s)))"
| "slice5 (VStr t) = ret (VStr (str_take 5 t))"
| "slice5 v = (\<lambda>s. Some (Inl (Exn TypeError ''object is not subscriptable''), s))"

subsection \<open>The statements of the renderer\<close>

definition getitem_st :: "val \<Rightarrow> string \<Rightarrow> val prog" where
  "getitem_st v k = reads (\<lambda>h. subscript h v k)"

definition get_st :: "val \<Rightarrow> string \<Rightarrow> val prog \<Rightarrow> val prog" where
  "get_st v k make_default =
     seq (reads (\<lambda>h. get_method h v)) (\<lambda>_.
     seq make_default (\<lambda>dflt.
     reads (\<lambda>h. get_call h v k dflt)))"

definition contains_st :: "val \<Rightarrow> string \<Rightarrow> bool prog" where
  "contains_st v k = reads (\<lambda>h. contains h v k)"

definition gt_st :: "val \<Rightarrow> int \<Rightarrow> bool prog" where
  "gt_st v c = reads (\<lambda>h. gt_val v c)"

definition ge_st :: "val \<Rightarrow> int \<Rightarrow> bool prog" where
  "ge_st v c = reads (\<lambda>h. ge_val v c)"

definition truthy_st :: "val \<Rightarrow> bool prog" where
  "truthy_st v = reads (\<lambda>h. Inr (truthy h v))"

definition len_st :: "val \<Rightarrow> int prog" where
  "len_st v = reads (\<lambda>h. len_val h v)"

definition str_st :: "(pyval \<Rightarrow> string) \<Rightarrow> val \<Rightarrow> string prog" where
  "str_st R v = reads (\<lambda>h. Inr (str_val R h v))"

definition floordiv_st :: "val \<Rightarrow> int \<Rightarrow> val prog" where
  "floordiv_st v c = reads (\<lambda>h. floordiv_val v c)"

definition truediv_st :: "val \<Rightarrow> val \<Rightarrow> rat prog" where
  "truediv_st a b = reads (\<lambda>h. truediv_val a b)"

definition join_st :: "string \<Rightarrow> val \<Rightarrow> string prog" where
  "join_st sep v = reads (\<lambda>h. join_val h sep v)"

text \<open>
  A \<^verbatim>\<open>for\<close> loop. The iterator of a list holds the list and an index, and each step reads
  the list as it is then: a body that appended to the list it iterates over would never
  leave the loop. The keys of a dictionary and the characters of a string are taken when
  the loop starts (Python raises RuntimeError when the body changes the size of
  the dictionary, which is not modelled). \<open>acc\<close> stands for the local variables the body
  assigns.
\<close>

datatype iterator = ListIter nat | Items "val list"

fun iter_of :: "obj list \<Rightarrow> val \<Rightarrow> exn + iterator" where
  "iter_of h (VRef a) =
     (case h ! a of
        OList xs \<Rightarrow> Inr (ListIter a)
      | ODict d \<Rightarrow> Inr (Items (map (\<lambda>kv. VStr (fst kv)) d)))"
| "iter_of h (VStr s) = Inr (Items (map VStr (chars s)))"
| "iter_of h v = Inl (Exn TypeError ''object is not iterable'')"

fun items_now :: "obj list \<Rightarrow> iterator \<Rightarrow> val list" where
  "items_now h (ListIter a) = (case h ! a of OList xs \<Rightarrow> xs | ODict d \<Rightarrow> [])"
| "items_now h (Items xs) = xs"

partial_function (option) loop ::
  "iterator \<Rightarrow> nat \<Rightarrow> (val \<Rightarrow> 'a \<Rightarrow> world \<Rightarrow> ((exn + 'a) \<times> world) option) \<Rightarrow> 'a \<Rightarrow> world
     \<Rightarrow> ((exn + 'a) \<times> world) option" where
  "loop it i body acc s =
     (if i < length (items_now (store s) it)
      then (case body (items_now (store s) it ! i) acc s of
              None \<Rightarrow> None
            | Some (r, s') \<Rightarrow>
                (case r of Inl e \<Rightarrow> Some (Inl e, s') | Inr acc' \<Rightarrow> loop it (Suc i) body acc' s'))
      else Some (Inr acc, s))"

definition for_st :: "val \<Rightarrow> (val \<Rightarrow> 'a \<Rightarrow> 'a prog) \<Rightarrow> 'a \<Rightarrow> 'a prog" where
  "for_st v body acc = seq (reads (\<lambda>h. iter_of h v)) (\<lambda>it. loop it 0 body acc)"

text \<open>An f-string whose replacement fields are subscripts of one value.\<close>

fun fstring_st :: "(pyval \<Rightarrow> string) \<Rightarrow> val \<Rightarrow> piece list \<Rightarrow> string prog" where
  "fstring_st R v [] = ret []"
| "fstring_st R v (Lit t # ps) = seq (fstring_st R v ps) (\<lambda>rest. ret (t @ rest))"
| "fstring_st R v (Key k # ps) =
     seq (getitem_st v k) (\<lambda>x.
     seq (str_st R x) (\<lambda>t.
     seq (fstring_st R v ps) (\<lambda>rest. ret (t @ rest))))"

section \<open>Facts about rounding to a double\<close>

lemma rhe_of_int: "rhe (of_int n) = n"
  by (simp add: rhe_def)

lemma rhe_bounds: "\<lfloor>x\<rfloor> \<le> rhe x \<and> rhe x \<le> \<lceil>x\<rceil>"
proof -
  have "x - of_int \<lfloor>x\<rfloor> \<noteq> 0 \<Longrightarrow> \<lfloor>x\<rfloor> + 1 \<le> \<lceil>x\<rceil>"
    by (metis ceiling_altdef order_refl eq_iff_diff_eq_0)
  moreover have "x - of_int \<lfloor>x\<rfloor> = 1 / 2 \<Longrightarrow> x - of_int \<lfloor>x\<rfloor> \<noteq> 0" by simp
  moreover have "1 / 2 < x - of_int \<lfloor>x\<rfloor> \<Longrightarrow> x - of_int \<lfloor>x\<rfloor> \<noteq> 0" by simp
  ultimately show ?thesis
    unfolding rhe_def Let_def
    by (auto simp: not_less intro: order_trans [OF floor_le_ceiling] dest!: antisym)
qed

lemma ilog2_le:
  assumes "0 < x"
  shows "2 powi (ilog2 x) \<le> x"
proof (cases "1 \<le> x")
  case True
  then have pos: "0 < \<lfloor>x\<rfloor>" by simp
  from bitlen_bounds [OF pos] have b: "2 ^ nat (bitlen \<lfloor>x\<rfloor> - 1) \<le> \<lfloor>x\<rfloor>" by simp
  have ge: "0 \<le> bitlen \<lfloor>x\<rfloor> - 1"
    using pos bitlen_nonneg [of "\<lfloor>x\<rfloor>"] bitlen_eq_zero_iff [of "\<lfloor>x\<rfloor>"] by linarith
  have "(2::rat) powi (bitlen \<lfloor>x\<rfloor> - 1) = of_int (2 ^ nat (bitlen \<lfloor>x\<rfloor> - 1))"
    using ge by (simp add: power_int_def)
  also have "\<dots> \<le> of_int \<lfloor>x\<rfloor>" using b by (simp only: of_int_le_iff)
  also have "\<dots> \<le> x" by simp
  finally show ?thesis using True by (simp add: ilog2_def)
next
  case False
  define N where "N = \<lceil>1 / x\<rceil> - 1"
  from False assms have "1 < 1 / x" by simp
  then have "1 < \<lceil>1 / x\<rceil>" by (simp add: less_ceiling_iff)
  then have pos: "0 < N" by (simp add: N_def)
  from bitlen_bounds [OF pos] have "N < 2 ^ nat (bitlen N)" by simp
  then have "N + 1 \<le> 2 ^ nat (bitlen N)" by simp
  then have "(of_int (N + 1) :: rat) \<le> of_int (2 ^ nat (bitlen N))" by (simp only: of_int_le_iff)
  moreover have "1 / x \<le> of_int (N + 1)" by (simp add: N_def)
  ultimately have "1 / x \<le> 2 ^ nat (bitlen N)" by simp
  then have "1 / 2 ^ nat (bitlen N) \<le> x"
    using assms by (simp add: field_simps)
  moreover have "(2::rat) powi (- bitlen N) = 1 / 2 ^ nat (bitlen N)"
    using bitlen_nonneg [of N] by (simp add: power_int_def field_simps)
  ultimately show ?thesis using False by (simp add: ilog2_def N_def)
qed

lemma powi_less_imp_less:
  assumes "(2::rat) powi a < 2 powi b"
  shows "a < b"
proof (rule ccontr)
  assume "\<not> a < b"
  then have "b \<le> a" by simp
  then have "(2::rat) powi b \<le> 2 powi a" by (intro power_int_increasing) simp_all
  with assms show False by simp
qed

lemma fl_exact:
  assumes m: "\<bar>m\<bar> < 2 ^ 53" and j: "j \<le> 1074"
  shows "fl (of_int m / 2 ^ j) = of_int m / 2 ^ j"
proof (cases "m = 0")
  case True
  then show ?thesis by (simp add: fl_def)
next
  case False
  define x :: rat where "x = of_int m / 2 ^ j"
  have x0: "x \<noteq> 0" using False by (simp add: x_def)
  then have xpos: "0 < \<bar>x\<bar>" by simp
  define p where "p = max (ilog2 \<bar>x\<bar> - 52) (- 1074)"
  have "\<bar>x\<bar> = of_int \<bar>m\<bar> / 2 ^ j" by (simp add: x_def abs_divide)
  also have "\<dots> < of_int (2 ^ 53) / 2 ^ j"
    using m by (intro divide_strict_right_mono) (simp_all only: of_int_less_iff zero_less_power zero_less_numeral)
  also have "\<dots> = 2 powi (53 - int j)"
    by (simp add: power_int_diff)
  finally have "\<bar>x\<bar> < 2 powi (53 - int j)" .
  with ilog2_le [OF xpos] have "(2::rat) powi (ilog2 \<bar>x\<bar>) < 2 powi (53 - int j)" by simp
  then have "ilog2 \<bar>x\<bar> < 53 - int j" by (rule powi_less_imp_less)
  then have ple: "p \<le> - int j" using j by (simp add: p_def)
  define k where "k = nat (- int j - p)"
  have kp: "int k = - int j - p" using ple by (simp add: k_def)
  have "(2::rat) powi p = 2 powi (- int j - int k)" using kp by simp
  also have "\<dots> = 1 / (2 ^ j * 2 ^ k)"
    by (simp add: power_int_diff power_int_minus field_simps)
  finally have pw: "(2::rat) powi p = 1 / (2 ^ j * 2 ^ k)" .
  have "x / 2 powi p = of_int (m * 2 ^ k)"
    by (simp add: x_def pw)
  then have "of_int (rhe (x / 2 powi p)) * 2 powi p = of_int (m * 2 ^ k) * 2 powi p"
    by (simp only: rhe_of_int)
  also have "\<dots> = x" by (simp add: pw x_def)
  finally show ?thesis using x0 unfolding fl_def p_def [symmetric] x_def [symmetric] Let_def by simp
qed

lemma fl_le_one:
  assumes "\<bar>x\<bar> \<le> 1"
  shows "\<bar>fl x\<bar> \<le> 1"
proof (cases "x = 0")
  case True
  then show ?thesis by (simp add: fl_def)
next
  case False
  then have xpos: "0 < \<bar>x\<bar>" by simp
  define p where "p = max (ilog2 \<bar>x\<bar> - 52) (- 1074)"
  from ilog2_le [OF xpos] assms have "(2::rat) powi (ilog2 \<bar>x\<bar>) < 2 powi 1" by simp
  then have "ilog2 \<bar>x\<bar> < 1" by (rule powi_less_imp_less)
  then have p0: "p \<le> 0" by (simp add: p_def)
  define N :: int where "N = 2 ^ nat (- p)"
  have pw: "(2::rat) powi p = 1 / of_int N"
    using p0 by (simp add: N_def power_int_def field_simps)
  have Npos: "0 < N" by (simp add: N_def)
  define y where "y = x / 2 powi p"
  have y: "y = x * of_int N" by (simp add: y_def pw)
  have "\<bar>y\<bar> \<le> of_int N" using assms Npos by (simp add: y abs_mult mult_le_cancel_right1)
  then have "- of_int N \<le> y" "y \<le> of_int N" by (simp_all add: abs_le_iff)
  then have "- N \<le> \<lfloor>y\<rfloor>" "\<lceil>y\<rceil> \<le> N"
    by (simp_all add: le_floor_iff ceiling_le_iff)
  with rhe_bounds [of y] have "\<bar>rhe y\<bar> \<le> N" by linarith
  then have "\<bar>(of_int (rhe y) :: rat)\<bar> \<le> of_int N"
    by (metis of_int_abs of_int_le_iff)
  then have "\<bar>(of_int (rhe y) :: rat) * 2 powi p\<bar> \<le> 1"
    using Npos by (simp add: pw abs_mult field_simps)
  then show ?thesis using False unfolding fl_def p_def [symmetric] y_def [symmetric] Let_def by simp
qed

section \<open>Collector: memory and disk arithmetic\<close>

lemma fl_zero: "fl 0 = 0" by (simp add: fl_def)

lemma fl_of_int: "\<bar>m\<bar> < 2 ^ 53 \<Longrightarrow> fl (of_int m) = of_int m"
  using fl_exact [of m 0] by simp

lemma float_of_int_exact: "\<bar>m\<bar> < 2 ^ 53 \<Longrightarrow> float_of_int m = Inr (of_int m)"
proof -
  assume a: "\<bar>m\<bar> < 2 ^ 53"
  then have "\<bar>m\<bar> < 2 ^ 1024" by (rule less_trans) simp
  then have "\<bar>(of_int m :: rat)\<bar> < of_int (2 ^ 1024)"
    by (metis of_int_abs of_int_less_iff)
  then show ?thesis using a by (simp add: float_of_int_def fl_of_int)
qed

lemma int_truediv_ok:
  assumes "0 < T" "0 \<le> A" "A \<le> T"
  shows "int_truediv (T - A) T = Inr (fl (of_int (T - A) / of_int T))"
proof -
  have "\<bar>(of_int (T - A) / of_int T :: rat)\<bar> \<le> 1" using assms by simp
  then have "\<bar>fl (of_int (T - A) / of_int T)\<bar> \<le> 1" by (rule fl_le_one)
  moreover have "(1::rat) < 2 ^ 1024" by simp
  ultimately have "\<not> 2 ^ 1024 \<le> \<bar>fl (of_int (T - A) / of_int T)\<bar>" by linarith
  then show ?thesis using assms by (simp add: int_truediv_def Let_def)
qed

lemma py_round1_zero: "py_round1 0 = 0" by (simp add: py_round1_def rhe_def fl_def)

text \<open>
  Claim C4, as the code has it. For a positive total \<open>T\<close> and \<open>0 \<le> A \<le> T\<close>
  the memory usage percent is the value of \<^verbatim>\<open>round((T - A) / T * 100, 1)\<close>, without
  any exception, and it is \<open>0\<close> when \<open>T = A\<close>.
\<close>

theorem mem_usage_percent_positive_total:
  assumes "0 < T" "0 \<le> A" "A \<le> T"
  shows "mem_usage_percent T A = Inr (spec_usage_percent T A)
       \<and> (T = A \<longrightarrow> mem_usage_percent T A = Inr 0)"
proof
  show "mem_usage_percent T A = Inr (spec_usage_percent T A)"
    using int_truediv_ok [OF assms]
    by (simp add: mem_usage_percent_def spec_usage_percent_def bnd_def Let_def)
  show "T = A \<longrightarrow> mem_usage_percent T A = Inr 0"
  proof
    assume "T = A"
    with int_truediv_ok [OF assms] have "int_truediv (T - A) T = Inr 0"
      by (simp add: fl_zero)
    then show "mem_usage_percent T A = Inr 0"
      by (simp add: mem_usage_percent_def bnd_def Let_def float_mul_def fl_zero py_round1_zero)
  qed
qed

theorem mem_usage_percent_positive_total_witness:
  "(0::int) < 4096 \<and> (0::int) \<le> 4096 \<and> (4096::int) \<le> 4096
   \<and> mem_usage_percent 4096 4096 = Inr 0"
proof -
  have h: "(0::int) < 4096" "(0::int) \<le> 4096" "(4096::int) \<le> 4096" by simp_all
  from mem_usage_percent_positive_total [OF h]
  have "mem_usage_percent 4096 4096 = Inr 0" by blast
  with h show ?thesis by blast
qed

text \<open>
  Claim C4 as stated covers \<open>T = 0\<close> with \<open>A = 0\<close>, where it promises the
  value \<open>0\<close>. There the division raises ZeroDivisionError: no percent is computed.
\<close>

theorem mem_usage_percent_zero_total:
  "(0::int) \<le> 0 \<and> mem_usage_percent 0 0 = Inl (Exn ZeroDivisionError ''division by zero'')"
  by (simp add: mem_usage_percent_def int_truediv_def bnd_def)

text \<open>
  Claim C5. With a swap total of \<open>0\<close> the swap usage percent is the integer
  \<open>0\<close>, whatever the free value. Whenever the total is not positive the result is
  that constant of the second branch, so the division is evaluated only under a positive
  total; no input yields a ZeroDivisionError.
\<close>

theorem swap_usage_percent_guard:
  "swap_usage_percent 0 swap_free = Inr (PInt 0)
   \<and> (\<not> 0 < swap_total \<longrightarrow> swap_usage_percent swap_total swap_free = Inr (PInt 0))
   \<and> swap_usage_percent swap_total swap_free \<noteq> Inl (Exn ZeroDivisionError msg)"
  by (simp add: swap_usage_percent_def int_truediv_def bnd_def Let_def split: sum.splits)

theorem swap_usage_percent_guard_witness:
  "\<not> (0::int) < - 1024 \<and> swap_usage_percent (- 1024) 4096 = Inr (PInt 0)"
  using swap_usage_percent_guard [of 4096 "- 1024"] by simp

text \<open>
  Claim C7. The status of a filesystem is critical from 90 percent, warning from 80
  percent and below 90, ok below 80; in particular at 79, 80 and 90.
\<close>

theorem fs_status_thresholds:
  "(90 \<le> u \<longrightarrow> fs_status u = ''critical'')
   \<and> (80 \<le> u \<and> u < 90 \<longrightarrow> fs_status u = ''warning'')
   \<and> (u < 80 \<longrightarrow> fs_status u = ''ok'')
   \<and> fs_status 79 = ''ok'' \<and> fs_status 80 = ''warning'' \<and> fs_status 90 = ''critical''"
  by (simp add: fs_status_def)

theorem fs_status_thresholds_witness:
  "((90::int) \<le> 95 \<and> fs_status 95 = ''critical'')
   \<and> ((80::int) \<le> 85 \<and> (85::int) < 90 \<and> fs_status 85 = ''warning'')
   \<and> ((12::int) < 80 \<and> fs_status 12 = ''ok'')"
  using fs_status_thresholds [of 95] fs_status_thresholds [of 85] fs_status_thresholds [of 12]
  by simp

lemma show_nat_digit: "n < 10 \<Longrightarrow> show_nat n = [digit_char n]"
  by (simp add: show_nat.simps)

lemma format_1f_1: "format_1f 1 = ''1.0''"
  by (simp add: format_1f_def rhe_def show_nat.simps digit_char_def)

lemma format_1f_999: "format_1f 999 = ''999.0''"
  by (simp add: format_1f_def rhe_def show_nat.simps digit_char_def)

lemma spec_1024: "spec_bytes_to_human 1024 = ''1.0 KB''"
  by (simp add: spec_bytes_to_human_def format_1f_1)

lemma spec_1048576: "spec_bytes_to_human 1048576 = ''1.0 MB''"
  by (simp add: spec_bytes_to_human_def format_1f_1)

lemma spec_999: "spec_bytes_to_human 999 = ''999.0 B''"
  by (simp add: spec_bytes_to_human_def format_1f_999)

lemma fl_div_1024:
  assumes "\<bar>m\<bar> < 2 ^ 53" "j + 10 \<le> 1074"
  shows "fl (of_int m / 2 ^ j / 1024) = of_int m / 2 ^ j / 1024"
  using fl_exact [OF assms] by (simp add: power_add)

lemma num_format_1f_float: "num_format_1f (NFloat x) = Inr (format_1f x)"
  by (simp add: num_format_1f_def bnd_def)

lemma bytes_loop_step:
  assumes "fl (x / 1024) = x / 1024"
  shows "bytes_loop (u # us) (NFloat x) =
         (if x < 1024 then Inr (format_1f x @ '' '' @ u) else bytes_loop us (NFloat (x / 1024)))"
  by (simp add: assms num_format_1f_float bnd_def float_truediv_def)

lemma bytes_loop_int_step:
  assumes "\<bar>n\<bar> < 2 ^ 53"
  shows "bytes_loop (u # us) (NInt n) =
         (if n < 1024 then Inr (format_1f (of_int n) @ '' '' @ u)
          else bytes_loop us (NFloat (of_int n / 1024)))"
proof -
  have eq: "fl (of_int n / 1024) = of_int n / 1024"
    using fl_div_1024 [OF assms, of 0] by simp
  show ?thesis
    by (simp add: eq float_of_int_exact [OF assms] num_format_1f_def bnd_def float_truediv_def)
qed

lemma bytes_loop_exact:
  assumes "\<bar>m\<bar> < 2 ^ 53"
  shows "j + 10 * (length us + 1) \<le> 1074 \<Longrightarrow>
         bytes_loop (u # us) (NFloat (of_int m / 2 ^ j)) =
         Inr (case spec_scale u (us @ [''PB'']) (of_int m / 2 ^ j) of
                (v, w) \<Rightarrow> format_1f v @ '' '' @ w)"
proof (induction us arbitrary: u j)
  case Nil
  define x :: rat where "x = of_int m / 2 ^ j"
  from Nil have "j + 10 \<le> 1074" by simp
  from fl_div_1024 [OF assms this] have "fl (x / 1024) = x / 1024" by (simp only: x_def)
  from bytes_loop_step [OF this] show ?case
    unfolding x_def [symmetric] by (simp add: num_format_1f_float bnd_def not_less)
next
  case (Cons u' us)
  define x :: rat where "x = of_int m / 2 ^ j"
  from Cons.prems have j: "j + 10 \<le> 1074" and j': "(j + 10) + 10 * (length us + 1) \<le> 1074"
    by simp_all
  have y: "of_int m / 2 ^ (j + 10) = x / 1024" by (simp add: x_def power_add)
  from fl_div_1024 [OF assms j] have "fl (x / 1024) = x / 1024" by (simp only: x_def)
  from bytes_loop_step [OF this] Cons.IH [OF j', of u'] show ?case
    unfolding y x_def [symmetric] by (simp add: not_less)
qed

text \<open>
  Claim C6. On every integer that converts to a float exactly (magnitude below
  \<open>2 ^ 53\<close>, that is 8 PB) \<^verbatim>\<open>bytes_to_human\<close> returns what the specification
  describes: the value in the first of the units B, KB, MB, GB, TB, PB in which it is
  below 1024 (PB at the latest), with one decimal place. At the unit boundaries it maps
  1024 to \<^verbatim>\<open>1.0 KB\<close>, 1048576 to \<^verbatim>\<open>1.0 MB\<close> and 999 to \<^verbatim>\<open>999.0 B\<close>.
\<close>

theorem bytes_to_human_units:
  "(\<bar>n\<bar> < 2 ^ 53 \<longrightarrow> bytes_to_human n = Inr (spec_bytes_to_human n))
   \<and> bytes_to_human 1024 = Inr ''1.0 KB''
   \<and> bytes_to_human 1048576 = Inr ''1.0 MB''
   \<and> bytes_to_human 999 = Inr ''999.0 B''"
proof -
  have gen: "bytes_to_human n = Inr (spec_bytes_to_human n)" if n: "\<bar>n\<bar> < 2 ^ 53" for n
  proof (cases "n < 1024")
    case True
    then have "spec_scale ''B'' [''KB'', ''MB'', ''GB'', ''TB'', ''PB''] (of_int n) = (of_int n, ''B'')"
      by simp
    then show ?thesis
      unfolding bytes_to_human_def spec_bytes_to_human_def bytes_loop_int_step [OF n]
      using True by simp
  next
    case False
    have tail: "bytes_loop (''KB'' # [''MB'', ''GB'', ''TB'']) (NFloat (of_int n / 2 ^ 10)) =
         Inr (case spec_scale ''KB'' ([''MB'', ''GB'', ''TB''] @ [''PB'']) (of_int n / 2 ^ 10) of
                (v, w) \<Rightarrow> format_1f v @ '' '' @ w)"
      by (rule bytes_loop_exact [OF n]) simp
    have p: "(2::rat) ^ 10 = 1024" by simp
    have le: "1024 \<le> (of_int n :: rat)" using False by simp
    have "spec_scale ''B'' [''KB'', ''MB'', ''GB'', ''TB'', ''PB''] (of_int n) =
          spec_scale ''KB'' ([''MB'', ''GB'', ''TB''] @ [''PB'']) (of_int n / 1024)"
      by (subst spec_scale.simps(2)) (simp only: le if_True append.simps)
    then show ?thesis
      unfolding bytes_to_human_def spec_bytes_to_human_def bytes_loop_int_step [OF n]
      using tail False unfolding p by (simp only: if_False)
  qed
  have "bytes_to_human 1024 = Inr ''1.0 KB''"
    using gen [of 1024] by (simp add: spec_1024)
  moreover have "bytes_to_human 1048576 = Inr ''1.0 MB''"
    using gen [of 1048576] by (simp add: spec_1048576)
  moreover have "bytes_to_human 999 = Inr ''999.0 B''"
    using gen [of 999] by (simp add: spec_999)
  ultimately show ?thesis using gen by blast
qed

theorem bytes_to_human_units_witness:
  "\<bar>1536 :: int\<bar> < 2 ^ 53 \<and> bytes_to_human 1536 = Inr ''1.5 KB''"
proof -
  have "format_1f (3 / 2) = ''1.5''"
    by (simp add: format_1f_def rhe_def show_nat.simps digit_char_def)
  then have "spec_bytes_to_human 1536 = ''1.5 KB''"
    by (simp add: spec_bytes_to_human_def)
  then show ?thesis using bytes_to_human_units [of 1536] by simp
qed

section \<open>Rendering succeeds on the snapshots the collector can produce\<close>

lemma bnd_Inr [simp]: "bnd (Inr x) f = f x"
  by (simp add: bnd_def)

lemma bnd_Inl [simp]: "bnd (Inl e) f = Inl e"
  by (simp add: bnd_def)

lemma ok_Inr [simp]: "ok (Inr x)"
  by (simp add: ok_def)

lemma ok_Inl [simp]: "\<not> ok (Inl e)"
  by (simp add: ok_def)

lemma ok_iff: "ok m \<longleftrightarrow> (\<exists>x. m = Inr x)"
  by (cases m) simp_all

lemma ok_bnd: "ok (bnd m f) \<longleftrightarrow> ok m \<and> (\<forall>x. m = Inr x \<longrightarrow> ok (f x))"
  by (cases m) simp_all

lemma ok_if: "ok (if b then m else n) \<longleftrightarrow> (b \<longrightarrow> ok m) \<and> (\<not> b \<longrightarrow> ok n)"
  by simp

lemma opt_key_case:
  "opt_key d k P \<Longrightarrow> P dflt \<Longrightarrow> P (case map_of d k of None \<Rightarrow> dflt | Some v \<Rightarrow> v)"
  by (simp add: opt_key_def split: option.splits)

lemma opt_key_metrics_get:
  "opt_key (metrics self) k P \<Longrightarrow> P dflt \<Longrightarrow> P (metrics_get self k dflt)"
  by (simp add: opt_key_def metrics_get_def split: option.splits)

lemma dict_withE:
  assumes "dict_with P v"
  obtains d where "v = PDict d" "P d"
  using assms by (cases v) simp_all

lemma has_keys_getitem:
  "has_keys ks v \<Longrightarrow> k \<in> set ks \<Longrightarrow> ok (py_getitem v k)"
  by (cases v) (auto simp: list_all_iff)

lemma fstring_ok:
  "has_keys ks v \<Longrightarrow> \<forall>k. Key k \<in> set ps \<longrightarrow> k \<in> set ks \<Longrightarrow> ok (fstring R v ps)"
proof (induction ps)
  case Nil
  then show ?case by simp
next
  case (Cons p ps)
  then show ?case
    by (cases p) (auto simp: ok_bnd has_keys_getitem)
qed

lemma rows_ok: "\<forall>x \<in> set xs. ok (f x) \<Longrightarrow> ok (rows f xs)"
  by (induction xs) (auto simp: ok_bnd)

lemma get_usage_status_ok: "is_num u \<Longrightarrow> ok (get_usage_status u w c)"
  by (cases u) (simp_all add: get_usage_status_def)

lemma process_row_ok: "wf_process p \<Longrightarrow> ok (process_row R p)"
  unfolding process_row_def wf_process_def by (erule fstring_ok) simp

lemma top_processes_table_ok:
  "list_of wf_process ps \<Longrightarrow> ok (generate_top_processes_table R ps t)"
  by (cases ps)
     (auto simp: generate_top_processes_table_def ok_bnd list_all_iff
           intro!: rows_ok process_row_ok dest: in_set_takeD)

lemma performance_ok:
  assumes "opt_key (metrics self) ''cpu'' wf_cpu" "opt_key (metrics self) ''memory'' wf_memory"
  shows "ok (generate_performance_metrics R self)"
proof -
  have "wf_cpu (metrics_get self ''cpu'' (PDict []))"
    using assms(1) by (rule opt_key_metrics_get) (simp add: wf_cpu_def opt_key_def)
  then obtain c where c: "metrics_get self ''cpu'' (PDict []) = PDict c"
    "opt_key c ''usage_percent'' is_num" "opt_key c ''top_processes'' (list_of wf_process)"
    unfolding wf_cpu_def by (auto elim: dict_withE)
  have "wf_memory (metrics_get self ''memory'' (PDict []))"
    using assms(2) by (rule opt_key_metrics_get) (simp add: wf_memory_def opt_key_def)
  then obtain m where m: "metrics_get self ''memory'' (PDict []) = PDict m"
    "opt_key m ''usage_percent'' is_num" "opt_key m ''swap_usage_percent'' is_num"
    "opt_key m ''top_processes'' (list_of wf_process)"
    unfolding wf_memory_def by (auto elim: dict_withE)
  show ?thesis
    unfolding generate_performance_metrics_def c(1) m(1) Let_def
    by (simp add: ok_bnd get_usage_status_ok top_processes_table_ok
          opt_key_case [OF c(2)] opt_key_case [OF c(3)]
          opt_key_case [OF m(2)] opt_key_case [OF m(3)] opt_key_case [OF m(4)])
qed

lemma opt_key_getitem:
  "opt_key d k P \<Longrightarrow> py_getitem (PDict d) k = Inr x \<Longrightarrow> P x"
  by (simp add: opt_key_def split: option.splits)

lemma is_dict_get_ok: "is_dict v \<Longrightarrow> ok (py_get v k dflt)"
  by (cases v) simp_all

lemma filesystem_row_ok: "wf_filesystem fs \<Longrightarrow> ok (filesystem_row R fs)"
  unfolding filesystem_row_def wf_filesystem_def
  by (auto simp: ok_bnd Let_def intro!: has_keys_getitem fstring_ok)

lemma large_file_row_ok: "wf_large_file f \<Longrightarrow> ok (large_file_row R f)"
  unfolding large_file_row_def wf_large_file_def by (erule fstring_ok) simp

lemma filesystem_table_ok: "list_of wf_filesystem v \<Longrightarrow> ok (filesystem_table R v)"
  by (cases v)
     (auto simp: filesystem_table_def ok_bnd list_all_iff intro!: rows_ok filesystem_row_ok)

lemma large_file_table_ok: "list_of wf_large_file v \<Longrightarrow> ok (large_file_table R v)"
  by (cases v)
     (auto simp: large_file_table_def ok_bnd list_all_iff intro!: rows_ok large_file_row_ok)

lemma disk_ok:
  assumes "opt_key (metrics self) ''disk'' wf_disk"
  shows "ok (generate_disk_analysis R self)"
proof -
  have "wf_disk (metrics_get self ''disk'' (PDict []))"
    using assms by (rule opt_key_metrics_get) (simp add: wf_disk_def opt_key_def)
  then obtain d where d: "metrics_get self ''disk'' (PDict []) = PDict d"
    "opt_key d ''filesystems'' (list_of wf_filesystem)"
    "opt_key d ''large_files'' (list_of wf_large_file)"
    unfolding wf_disk_def by (auto elim: dict_withE)
  show ?thesis
    unfolding generate_disk_analysis_def d(1) Let_def
    by (simp add: ok_bnd filesystem_table_ok large_file_table_ok
          opt_key_case [OF d(2)] opt_key_case [OF d(3)])
qed

lemma strs_of_ok: "list_all is_str xs \<Longrightarrow> ok (strs_of xs)"
proof (induction xs)
  case Nil
  then show ?case by simp
next
  case (Cons x xs)
  then show ?case by (cases x) (simp_all add: ok_bnd)
qed

lemma py_join_ok: "list_of is_str v \<Longrightarrow> ok (py_join sep v)"
  by (cases v) (simp_all add: py_join_def ok_bnd strs_of_ok)

lemma interface_row_ok:
  assumes "wf_interface i"
  shows "ok (interface_row R i)"
proof -
  from assms obtain d where d: "i = PDict d"
    "has_keys [''name'', ''status'', ''addresses''] (PDict d)"
    "opt_key d ''addresses'' (list_of is_str)"
    unfolding wf_interface_def by (auto elim: dict_withE)
  have keys: "ok (py_getitem (PDict d) ''status'')" "ok (py_getitem (PDict d) ''addresses'')"
    "ok (py_getitem (PDict d) ''name'')"
    using d(2) by (auto intro!: has_keys_getitem)
  have fs: "ok (fstring R (PDict d) ps)" if "\<forall>k. Key k \<in> set ps \<longrightarrow> k \<in> set [''name'', ''status'', ''addresses'']" for ps
    using d(2) that by (rule fstring_ok)
  show ?thesis
    unfolding interface_row_def d(1)
    by (auto simp: ok_bnd Let_def keys simp del: py_getitem.simps has_keys.simps
          intro!: fs py_join_ok dest: opt_key_getitem [OF d(3)])
qed

lemma interface_list_ok: "list_of wf_interface v \<Longrightarrow> ok (interface_list R v)"
  by (cases v)
     (auto simp: interface_list_def ok_bnd list_all_iff intro!: rows_ok interface_row_ok)

lemma network_ok:
  assumes "opt_key (metrics self) ''network'' wf_network"
  shows "ok (generate_network_status R self)"
proof -
  have "wf_network (metrics_get self ''network'' (PDict []))"
    using assms by (rule opt_key_metrics_get) (simp add: wf_network_def opt_key_def)
  then obtain d where d: "metrics_get self ''network'' (PDict []) = PDict d"
    "opt_key d ''interfaces'' (list_of wf_interface)"
    unfolding wf_network_def by (auto elim: dict_withE)
  show ?thesis
    unfolding generate_network_status_def d(1) Let_def
    by (simp add: ok_bnd interface_list_ok opt_key_case [OF d(2)])
qed

lemma security_card_ok:
  assumes "opt_key d g is_dict"
  shows "ok (security_card R (PDict d) g vk vd t l)"
proof -
  have "is_dict (case map_of d g of None \<Rightarrow> PDict [] | Some v \<Rightarrow> v)"
    using assms by (rule opt_key_case) simp
  then obtain c where "(case map_of d g of None \<Rightarrow> PDict [] | Some v \<Rightarrow> v) = PDict c"
    by (cases "case map_of d g of None \<Rightarrow> PDict [] | Some v \<Rightarrow> v") simp_all
  then show ?thesis
    by (simp add: security_card_def ok_bnd)
qed

lemma security_ok:
  assumes "opt_key (metrics self) ''security'' wf_security"
  shows "ok (generate_security_status R self)"
proof -
  have "wf_security (metrics_get self ''security'' (PDict []))"
    using assms by (rule opt_key_metrics_get) (simp add: wf_security_def opt_key_def)
  then obtain d where d: "metrics_get self ''security'' (PDict []) = PDict d"
    "opt_key d ''selinux'' is_dict" "opt_key d ''firewall'' is_dict"
    "opt_key d ''updates'' is_dict" "opt_key d ''failed_logins'' is_dict"
    unfolding wf_security_def by (auto elim: dict_withE)
  show ?thesis
    unfolding generate_security_status_def d(1) Let_def
    by (simp add: ok_bnd security_card_ok d)
qed

lemma service_row_ok: "wf_service s \<Longrightarrow> ok (service_row R s)"
  unfolding service_row_def wf_service_def
  by (auto simp: ok_bnd Let_def intro!: has_keys_getitem fstring_ok)

lemma service_table_ok: "list_of wf_service v \<Longrightarrow> ok (service_table R v)"
  by (cases v)
     (auto simp: service_table_def ok_bnd list_all_iff intro!: rows_ok service_row_ok)

lemma list_of_len_ok: "list_of P v \<Longrightarrow> ok (py_len v)"
  by (cases v) simp_all

lemma services_ok:
  assumes "opt_key (metrics self) ''services'' wf_services"
  shows "ok (generate_services_status R self)"
proof -
  have "wf_services (metrics_get self ''services'' (PDict []))"
    using assms by (rule opt_key_metrics_get) (simp add: wf_services_def opt_key_def)
  then obtain d where d: "metrics_get self ''services'' (PDict []) = PDict d"
    "opt_key d ''critical_services'' (list_of wf_service)"
    unfolding wf_services_def by (auto elim: dict_withE)
  have l: "list_of wf_service (case map_of d ''critical_services'' of None \<Rightarrow> PList [] | Some v \<Rightarrow> v)"
    using d(2) by (rule opt_key_case) simp
  show ?thesis
    unfolding generate_services_status_def d(1) Let_def
    by (simp add: ok_bnd service_table_ok [OF l] list_of_len_ok [OF l])
qed

lemma py_gt_ok: "is_num u \<Longrightarrow> ok (py_gt u c)"
  by (cases u) simp_all

lemma health_cpu_ok:
  assumes "opt_key (metrics self) ''cpu'' wf_cpu"
  shows "ok (health_cpu self st)"
proof (cases "map_of (metrics self) ''cpu''")
  case None
  then show ?thesis by (simp add: health_cpu_def)
next
  case (Some cpu)
  with assms have "wf_cpu cpu" by (simp add: opt_key_def)
  then obtain d where d: "cpu = PDict d" "opt_key d ''usage_percent'' is_num"
    unfolding wf_cpu_def by (auto elim: dict_withE)
  have "is_num (case map_of d ''usage_percent'' of None \<Rightarrow> PInt 0 | Some v \<Rightarrow> v)"
    using d(2) by (rule opt_key_case) simp
  then show ?thesis
    using Some by (simp add: health_cpu_def d(1) ok_bnd py_gt_ok)
qed

lemma health_memory_ok:
  assumes "opt_key (metrics self) ''memory'' wf_memory"
  shows "ok (health_memory self st)"
proof (cases "map_of (metrics self) ''memory''")
  case None
  then show ?thesis by (simp add: health_memory_def)
next
  case (Some memory)
  with assms have "wf_memory memory" by (simp add: opt_key_def)
  then obtain d where d: "memory = PDict d" "opt_key d ''usage_percent'' is_num"
    unfolding wf_memory_def by (auto elim: dict_withE)
  have "is_num (case map_of d ''usage_percent'' of None \<Rightarrow> PInt 0 | Some v \<Rightarrow> v)"
    using d(2) by (rule opt_key_case) simp
  then show ?thesis
    using Some by (simp add: health_memory_def d(1) ok_bnd py_gt_ok)
qed

lemma health_disk_loop_ok:
  "list_all wf_filesystem fss \<Longrightarrow> ok (health_disk_loop R fss st)"
proof (induction fss arbitrary: st)
  case Nil
  then show ?case by simp
next
  case (Cons fs fss)
  then have "wf_filesystem fs" and rest: "list_all wf_filesystem fss" by simp_all
  then obtain d where d: "fs = PDict d" "opt_key d ''usage_percent'' is_num"
    "ok (py_getitem (PDict d) ''mountpoint'')"
    unfolding wf_filesystem_def by (auto elim!: dict_withE intro!: has_keys_getitem)
  have "is_num (case map_of d ''usage_percent'' of None \<Rightarrow> PInt 0 | Some v \<Rightarrow> v)"
    using d(2) by (rule opt_key_case) simp
  then show ?case
    using d(3) Cons.IH [OF rest]
    by (simp add: d(1) ok_bnd py_gt_ok del: py_getitem.simps)
qed

lemma health_disk_ok:
  assumes "opt_key (metrics self) ''disk'' wf_disk"
  shows "ok (health_disk R self st)"
proof (cases "map_of (metrics self) ''disk''")
  case None
  then show ?thesis by (simp add: health_disk_def)
next
  case (Some disk)
  with assms have "wf_disk disk" by (simp add: opt_key_def)
  then obtain d where d: "disk = PDict d" "opt_key d ''filesystems'' (list_of wf_filesystem)"
    unfolding wf_disk_def by (auto elim: dict_withE)
  have "list_of wf_filesystem (case map_of d ''filesystems'' of None \<Rightarrow> PList [] | Some v \<Rightarrow> v)"
    using d(2) by (rule opt_key_case) simp
  then obtain fss where "(case map_of d ''filesystems'' of None \<Rightarrow> PList [] | Some v \<Rightarrow> v) = PList fss"
    "list_all wf_filesystem fss"
    by (cases "case map_of d ''filesystems'' of None \<Rightarrow> PList [] | Some v \<Rightarrow> v") simp_all
  then show ?thesis
    using Some by (simp add: health_disk_def d(1) ok_bnd health_disk_loop_ok)
qed

lemma determine_overall_health_ok:
  assumes "opt_key (metrics self) ''cpu'' wf_cpu" "opt_key (metrics self) ''memory'' wf_memory"
    "opt_key (metrics self) ''disk'' wf_disk"
  shows "ok (determine_overall_health R self)"
  unfolding determine_overall_health_def
  by (simp add: ok_bnd health_cpu_ok [OF assms(1)] health_memory_ok [OF assms(2)]
        health_disk_ok [OF assms(3)])

lemma py_floordiv_ok: "is_num u \<Longrightarrow> c \<noteq> 0 \<Longrightarrow> \<bar>c\<bar> < 2 ^ 53 \<Longrightarrow> ok (py_floordiv u c)"
  by (cases "(u, c)" rule: py_floordiv.cases) (simp_all add: float_of_int_exact)

lemma get_load_status_ok:
  assumes "is_float l" "is_core_count c"
  shows "ok (get_load_status l c)"
proof -
  from assms(1) obtain q where l: "l = PFloat q" by (cases l rule: is_float.cases) simp_all
  from assms(2) obtain n where c: "c = PInt n" "0 < n" "n < 2 ^ 53"
    by (cases c rule: is_core_count.cases) simp_all
  from c have "\<bar>n\<bar> < 2 ^ 53" by simp
  then have "float_of_int n = Inr (of_int n)" by (rule float_of_int_exact)
  then show ?thesis
    using c(2) by (simp add: get_load_status_def l c(1) ok_bnd float_truediv_def)
qed

lemma system_overview_ok:
  assumes sys: "has_keys [''system''] (PDict (metrics self))"
    "opt_key (metrics self) ''system'' wf_system"
    and "opt_key (metrics self) ''cpu'' wf_cpu" "opt_key (metrics self) ''memory'' wf_memory"
    "opt_key (metrics self) ''disk'' wf_disk"
  shows "ok (generate_system_overview R self)"
proof -
  from sys obtain system where system: "metrics_getitem self ''system'' = Inr system"
    "wf_system system"
    by (auto simp: metrics_getitem_def opt_key_def split: option.splits)
  let ?ks = "[''hostname'', ''timestamp'', ''os_info'', ''kernel'', ''architecture'',
              ''uptime'', ''uptime_seconds'', ''load_avg'', ''cpu_cores'']"
  from system(2) obtain d where d: "system = PDict d" "has_keys ?ks (PDict d)"
    "opt_key d ''uptime_seconds'' is_num" "opt_key d ''load_avg'' wf_load_avg"
    "opt_key d ''cpu_cores'' is_core_count"
    unfolding wf_system_def by (auto elim: dict_withE)
  from d(2) obtain us la cc where g: "py_getitem (PDict d) ''uptime_seconds'' = Inr us"
    "py_getitem (PDict d) ''load_avg'' = Inr la" "py_getitem (PDict d) ''cpu_cores'' = Inr cc"
    by (auto simp: list_all_iff)
  have us: "is_num us" using d(3) g(1) by (rule opt_key_getitem)
  have "wf_load_avg la" using d(4) g(2) by (rule opt_key_getitem)
  then obtain e where e: "la = PDict e" "has_keys [''1min'', ''5min'', ''15min''] (PDict e)"
    "opt_key e ''1min'' is_float"
    unfolding wf_load_avg_def by (auto elim: dict_withE)
  from e(2) obtain l1 where l1: "py_getitem (PDict e) ''1min'' = Inr l1"
    by (auto simp: list_all_iff)
  have fl1: "is_float l1" using e(3) l1 by (rule opt_key_getitem)
  have cc: "is_core_count cc" using d(5) g(3) by (rule opt_key_getitem)
  have f1: "ok (fstring R (PDict d) ps)" if "\<forall>k. Key k \<in> set ps \<longrightarrow> k \<in> set ?ks" for ps
    using d(2) that by (rule fstring_ok)
  have f2: "ok (fstring R (PDict e) ps)"
    if "\<forall>k. Key k \<in> set ps \<longrightarrow> k \<in> set [''1min'', ''5min'', ''15min'']" for ps
    using e(2) that by (rule fstring_ok)
  show ?thesis
    unfolding generate_system_overview_def system(1) d(1)
    by (simp add: ok_bnd g e(1) l1 py_floordiv_ok [OF us] get_load_status_ok [OF fl1 cc]
          determine_overall_health_ok [OF assms(3-5)] f1 f2 split_beta Let_def
          del: py_getitem.simps fstring.simps)
qed

lemma html_document_ok:
  assumes "wf_snapshot self"
  shows "ok (html_document R self)"
proof -
  from assms have w: "has_keys [''system''] (PDict (metrics self))"
    "opt_key (metrics self) ''system'' wf_system"
    "opt_key (metrics self) ''cpu'' wf_cpu" "opt_key (metrics self) ''memory'' wf_memory"
    "opt_key (metrics self) ''disk'' wf_disk" "opt_key (metrics self) ''network'' wf_network"
    "opt_key (metrics self) ''security'' wf_security"
    "opt_key (metrics self) ''services'' wf_services"
    by (simp_all add: wf_snapshot_def)
  from w(1,2) obtain system where system: "metrics_getitem self ''system'' = Inr system"
    "wf_system system"
    by (auto simp: metrics_getitem_def opt_key_def split: option.splits)
  then have "ok (py_getitem system ''hostname'')" "ok (py_getitem system ''timestamp'')"
    unfolding wf_system_def by (auto intro!: has_keys_getitem)
  then show ?thesis
    unfolding html_document_def system(1)
    by (simp add: ok_bnd system_overview_ok [OF w(1-5)] performance_ok [OF w(3,4)]
          disk_ok [OF w(5)] network_ok [OF w(6)] security_ok [OF w(7)] services_ok [OF w(8)])
qed

section \<open>What the rendered text contains\<close>

lemma bnd_eq_Inr: "bnd m f = Inr y \<longleftrightarrow> (\<exists>x. m = Inr x \<and> f x = Inr y)"
  by (cases m) simp_all

lemma bndE:
  assumes "bnd m f = Inr y"
  obtains x where "m = Inr x" "f x = Inr y"
  using assms by (auto simp: bnd_eq_Inr)

lemma sublist_in_right: "sublist xs ys \<Longrightarrow> sublist xs (ps @ ys)"
proof -
  assume "sublist xs ys"
  then obtain a b where "ys = a @ xs @ b" by (auto simp: sublist_def)
  then have "ps @ ys = (ps @ a) @ xs @ b" by simp
  then show ?thesis by (metis sublist_appendI)
qed

lemma sublist_in_left: "sublist xs ys \<Longrightarrow> sublist xs (ys @ ss)"
proof -
  assume "sublist xs ys"
  then obtain a b where "ys = a @ xs @ b" by (auto simp: sublist_def)
  then have "ys @ ss = a @ xs @ (b @ ss)" by simp
  then show ?thesis by (metis sublist_appendI)
qed

lemma sublist_concat_mem: "x \<in> set xs \<Longrightarrow> sublist x (concat xs)"
proof -
  assume "x \<in> set xs"
  then obtain ys zs where "xs = ys @ x # zs" by (auto dest: split_list)
  then have "concat xs = concat ys @ x @ concat zs" by simp
  then show ?thesis by (metis sublist_appendI)
qed

lemma sublist_trans: "sublist xs ys \<Longrightarrow> sublist ys zs \<Longrightarrow> sublist xs zs"
  by (rule sublist_order.order_trans)

lemma fstring_sublist_key:
  "fstring R v ps = Inr s \<Longrightarrow> Key k \<in> set ps \<Longrightarrow> py_getitem v k = Inr x
   \<Longrightarrow> sublist (py_str R x) s"
proof (induction ps arbitrary: s)
  case Nil
  then show ?case by simp
next
  case (Cons p ps)
  show ?case
  proof (cases p)
    case (Lit t)
    with Cons.prems obtain rest where r: "fstring R v ps = Inr rest" "s = t @ rest"
      by (auto simp: bnd_eq_Inr)
    from Cons.prems Lit have "Key k \<in> set ps" by simp
    from Cons.IH [OF r(1) this Cons.prems(3)] show ?thesis
      unfolding r(2) by (rule sublist_in_right)
  next
    case (Key k')
    with Cons.prems obtain y rest where r: "py_getitem v k' = Inr y"
      "fstring R v ps = Inr rest" "s = py_str R y @ rest"
      by (auto simp: bnd_eq_Inr)
    show ?thesis
    proof (cases "k' = k")
      case True
      with r(1) Cons.prems(3) have "y = x" by simp
      then show ?thesis unfolding r(3) by simp
    next
      case False
      with Cons.prems Key have "Key k \<in> set ps" by simp
      from Cons.IH [OF r(2) this Cons.prems(3)] show ?thesis
        unfolding r(3) by (rule sublist_in_right)
    qed
  qed
qed

lemma rows_sublist:
  "rows f xs = Inr s \<Longrightarrow> x \<in> set xs \<Longrightarrow> f x = Inr r \<Longrightarrow> sublist r s"
proof (induction xs arbitrary: s)
  case Nil
  then show ?case by simp
next
  case (Cons y ys)
  from Cons.prems(1) obtain a b where ab: "f y = Inr a" "rows f ys = Inr b" "s = a @ b"
    by (auto simp: bnd_eq_Inr)
  show ?case
  proof (cases "x = y")
    case True
    with ab(1) Cons.prems(3) have "a = r" by simp
    then show ?thesis unfolding ab(3) by simp
  next
    case False
    with Cons.prems(2) have "x \<in> set ys" by simp
    from Cons.IH [OF ab(2) this Cons.prems(3)] show ?thesis
      unfolding ab(3) by (rule sublist_in_right)
  qed
qed

lemma degraded_get:
  assumes "degraded self g"
  obtains d where "metrics_get self g (PDict []) = PDict d"
    "\<And>k. k \<noteq> ''error'' \<Longrightarrow> map_of d k = None"
proof (cases "map_of (metrics self) g")
  case None
  then show ?thesis by (intro that [of "[]"]) (simp_all add: metrics_get_def)
next
  case (Some v)
  with assms have "is_degraded (Some v)" by (simp add: degraded_def)
  then consider "v = PDict []" | m where "v = PDict [(''error'', PStr m)]"
    by (cases "Some v" rule: is_degraded.cases) auto
  then show ?thesis
  proof cases
    case 1
    with Some show ?thesis by (intro that [of "[]"]) (simp_all add: metrics_get_def)
  next
    case 2
    with Some show ?thesis
      by (intro that [of "[(''error'', PStr m)]"]) (simp_all add: metrics_get_def)
  qed
qed

lemma Inr_concat_sublist:
  "m = Inr (concat xs) \<Longrightarrow> x \<in> set xs \<Longrightarrow> \<exists>s. m = Inr s \<and> sublist x s"
  by (auto intro: sublist_concat_mem)

lemma degraded_disk:
  assumes "degraded self ''disk''"
  shows "\<exists>da. generate_disk_analysis R self = Inr da
           \<and> sublist ''<p>No filesystem data available</p>'' da"
proof -
  from assms obtain d where d: "metrics_get self ''disk'' (PDict []) = PDict d"
    "map_of d ''filesystems'' = None" "map_of d ''large_files'' = None"
    by (rule degraded_get) simp
  show ?thesis
    apply (rule Inr_concat_sublist)
     apply (simp add: generate_disk_analysis_def d filesystem_table_def large_file_table_def
              Let_def del: concat.simps)
    apply simp
    done
qed

lemma degraded_network:
  assumes "degraded self ''network''"
  shows "\<exists>ns. generate_network_status R self = Inr ns
           \<and> sublist ''<p>No network interface data available</p>'' ns"
proof -
  from assms obtain d where d: "metrics_get self ''network'' (PDict []) = PDict d"
    "map_of d ''interfaces'' = None"
    by (rule degraded_get) simp
  show ?thesis
    apply (rule Inr_concat_sublist)
     apply (simp add: generate_network_status_def d interface_list_def Let_def
              del: concat.simps)
    apply simp
    done
qed

lemma degraded_services:
  assumes "degraded self ''services''"
  shows "\<exists>sv. generate_services_status R self = Inr sv
           \<and> sublist ''<p>No service data available</p>'' sv"
proof -
  from assms obtain d where d: "metrics_get self ''services'' (PDict []) = PDict d"
    "map_of d ''critical_services'' = None"
    by (rule degraded_get) simp
  show ?thesis
    apply (rule Inr_concat_sublist)
     apply (simp add: generate_services_status_def d service_table_def Let_def
              del: concat.simps)
    apply simp
    done
qed

lemma show_int_0: "show_int 0 = ''0''"
  by (simp add: show_int_def show_nat.simps digit_char_def)

lemma degraded_performance:
  assumes "degraded self ''cpu''" "degraded self ''memory''"
  shows "generate_performance_metrics R self = Inr performance_defaults"
proof -
  from assms(1) obtain c where c: "metrics_get self ''cpu'' (PDict []) = PDict c"
    "map_of c ''usage_percent'' = None" "map_of c ''top_processes'' = None"
    by (rule degraded_get) simp
  from assms(2) obtain m where m: "metrics_get self ''memory'' (PDict []) = PDict m"
    "map_of m ''usage_percent'' = None" "map_of m ''swap_usage_percent'' = None"
    "map_of m ''top_processes'' = None" "map_of m ''used_human'' = None"
    "map_of m ''total_human'' = None" "map_of m ''swap_used_human'' = None"
    "map_of m ''swap_total_human'' = None"
    by (rule degraded_get) simp
  show ?thesis
    by (simp add: generate_performance_metrics_def performance_defaults_def c m Let_def
          get_usage_status_def generate_top_processes_table_def show_int_0
          del: concat.simps)
qed

lemma degraded_security:
  assumes "degraded self ''security''"
  shows "generate_security_status R self = Inr security_defaults"
proof -
  from assms obtain d where d: "metrics_get self ''security'' (PDict []) = PDict d"
    "map_of d ''selinux'' = None" "map_of d ''firewall'' = None"
    "map_of d ''updates'' = None" "map_of d ''failed_logins'' = None"
    by (rule degraded_get) simp
  show ?thesis
    by (simp add: generate_security_status_def security_defaults_def security_card_def d
          Let_def show_int_0)
qed

lemma sublist_concat_eq: "concat xs = doc \<Longrightarrow> x \<in> set xs \<Longrightarrow> sublist x doc"
  by (auto intro: sublist_concat_mem)

lemma html_document_sections:
  assumes "html_document R self = Inr doc"
  shows "\<exists>so pm da ns ss sv.
    generate_system_overview R self = Inr so \<and> sublist so doc
    \<and> generate_performance_metrics R self = Inr pm \<and> sublist pm doc
    \<and> generate_disk_analysis R self = Inr da \<and> sublist da doc
    \<and> generate_network_status R self = Inr ns \<and> sublist ns doc
    \<and> generate_security_status R self = Inr ss \<and> sublist ss doc
    \<and> generate_services_status R self = Inr sv \<and> sublist sv doc"
  using assms unfolding html_document_def
  apply (elim bndE)
  apply (simp del: concat.simps)
  apply (intro conjI)
       apply (erule sublist_concat_eq, simp)+
  done

lemma sublist_concat_prefix: "sublist (concat xs) (concat (xs @ ys))"
  by (simp add: sublist_def) (metis append_Nil)

section \<open>Renderer: claims\<close>


lemma wf_example_system: "wf_system example_system"
  by (simp add: wf_system_def example_system_def wf_load_avg_def opt_key_def)

text \<open>
  Claim C3, as the code has it. The hypothesis \<open>wf_snapshot\<close> asks that the system
  group is there with the nine fields the renderer reads by subscript (\<^verbatim>\<open>hostname\<close>,
  \<^verbatim>\<open>timestamp\<close>, \<^verbatim>\<open>os_info\<close>, \<^verbatim>\<open>kernel\<close>, \<^verbatim>\<open>architecture\<close>, \<^verbatim>\<open>uptime\<close>,
  \<^verbatim>\<open>uptime_seconds\<close>, \<^verbatim>\<open>load_avg\<close>, \<^verbatim>\<open>cpu_cores\<close>), that \<^verbatim>\<open>uptime_seconds\<close> is a number,
  \<^verbatim>\<open>load_avg\<close> a dictionary with the keys \<^verbatim>\<open>1min\<close>, \<^verbatim>\<open>5min\<close> and \<^verbatim>\<open>15min\<close> whose
  \<^verbatim>\<open>1min\<close> value is a float, and \<^verbatim>\<open>cpu_cores\<close> a positive integer below \<open>2 ^ 53\<close>; and
  that each other group is absent, empty, an error marker, or a dictionary whose fields,
  where present, have the types the collector gives them. On every such snapshot
  rendering returns a document. When the disk, network or services
  group is degraded, the document holds the placeholder paragraph of that section. The
  performance and security sections have no placeholder: when the CPU and memory groups
  are degraded the performance section is the template with the defaults \<^verbatim>\<open>0\<close> and
  \<^verbatim>\<open>N/A\<close>, and when the security group is degraded the security section is the template
  with \<^verbatim>\<open>Unknown\<close>, \<^verbatim>\<open>unknown\<close> and \<^verbatim>\<open>0\<close>.
\<close>

theorem rendering_with_degraded_groups:
  assumes "wf_snapshot self"
  shows "\<exists>doc. fst (generate_html R self) = Inr doc
     \<and> (degraded self ''disk'' \<longrightarrow> sublist ''<p>No filesystem data available</p>'' doc)
     \<and> (degraded self ''network'' \<longrightarrow> sublist ''<p>No network interface data available</p>'' doc)
     \<and> (degraded self ''services'' \<longrightarrow> sublist ''<p>No service data available</p>'' doc)
     \<and> (degraded self ''cpu'' \<and> degraded self ''memory'' \<longrightarrow> sublist performance_defaults doc)
     \<and> (degraded self ''security'' \<longrightarrow> sublist security_defaults doc)"
proof -
  from html_document_ok [OF assms] obtain doc where doc: "html_document R self = Inr doc"
    by (auto simp: ok_iff)
  from html_document_sections [OF doc] obtain so pm da ns ss sv where
    s: "generate_performance_metrics R self = Inr pm" "sublist pm doc"
       "generate_disk_analysis R self = Inr da" "sublist da doc"
       "generate_network_status R self = Inr ns" "sublist ns doc"
       "generate_security_status R self = Inr ss" "sublist ss doc"
       "generate_services_status R self = Inr sv" "sublist sv doc"
    by blast
  have disk: "sublist ''<p>No filesystem data available</p>'' doc" if "degraded self ''disk''"
    using degraded_disk [OF that, of R] s(3,4) by (auto intro: sublist_trans)
  have network: "sublist ''<p>No network interface data available</p>'' doc"
    if "degraded self ''network''"
    using degraded_network [OF that, of R] s(5,6) by (auto intro: sublist_trans)
  have services: "sublist ''<p>No service data available</p>'' doc" if "degraded self ''services''"
    using degraded_services [OF that, of R] s(9,10) by (auto intro: sublist_trans)
  have performance: "sublist performance_defaults doc"
    if "degraded self ''cpu''" "degraded self ''memory''"
    using degraded_performance [OF that, of R] s(1,2) by simp
  have security: "sublist security_defaults doc" if "degraded self ''security''"
    using degraded_security [OF that, of R] s(7,8) by simp
  from doc disk network services performance security show ?thesis
    by (auto simp: generate_html_def)
qed

lemma wf_degraded_snapshot: "wf_snapshot degraded_snapshot"
  by (simp add: wf_snapshot_def degraded_snapshot_def opt_key_def wf_example_system
        wf_cpu_def wf_memory_def wf_disk_def wf_services_def)

text \<open>
  The hypothesis of the theorem for claim C3 holds on \<open>degraded_snapshot\<close>, where all six
  groups beside the system group are degraded, in each of the three ways.
\<close>

theorem rendering_with_degraded_groups_witness:
  "wf_snapshot degraded_snapshot
   \<and> degraded degraded_snapshot ''disk'' \<and> degraded degraded_snapshot ''network''
   \<and> degraded degraded_snapshot ''services'' \<and> degraded degraded_snapshot ''cpu''
   \<and> degraded degraded_snapshot ''memory'' \<and> degraded degraded_snapshot ''security''
   \<and> (\<exists>doc. fst (generate_html example_repr degraded_snapshot) = Inr doc
        \<and> sublist ''<p>No filesystem data available</p>'' doc
        \<and> sublist ''<p>No network interface data available</p>'' doc
        \<and> sublist ''<p>No service data available</p>'' doc
        \<and> sublist performance_defaults doc
        \<and> sublist security_defaults doc)"
proof -
  have d: "degraded degraded_snapshot ''disk''" "degraded degraded_snapshot ''network''"
    "degraded degraded_snapshot ''services''" "degraded degraded_snapshot ''cpu''"
    "degraded degraded_snapshot ''memory''" "degraded degraded_snapshot ''security''"
    by (simp_all add: degraded_def degraded_snapshot_def)
  from rendering_with_degraded_groups [OF wf_degraded_snapshot, of example_repr] d
  show ?thesis using wf_degraded_snapshot by blast
qed

text \<open>
  Claim C3 as stated includes the system group. On a snapshot without it rendering does
  not succeed: the first subscript \<^verbatim>\<open>self.metrics['system']\<close> raises KeyError.
\<close>

theorem rendering_without_system_group:
  "degraded snapshot_without_system ''system''
   \<and> fst (generate_html example_repr snapshot_without_system) = Inl (key_error ''system'')"
  by (simp add: degraded_def snapshot_without_system_def generate_html_def html_document_def
        generate_system_overview_def metrics_getitem_def)

lemma top_processes_table_contains_row:
  assumes "generate_top_processes_table R (PList ps) t = Inr s" "p \<in> set (take 5 ps)"
    "process_row R p = Inr r"
  shows "sublist r s"
proof -
  from assms(2) have ne: "ps \<noteq> []" by auto
  from assms(1) obtain body xs where body: "rows (process_row R) (take 5 ps) = Inr body"
    and s: "s = concat xs" and mem: "body \<in> set xs"
    unfolding generate_top_processes_table_def using ne
    by (auto simp: bnd_eq_Inr simp del: concat.simps)
  from rows_sublist [OF body assms(2,3)] have "sublist r body" .
  moreover have "sublist body s" unfolding s using mem by (rule sublist_concat_mem)
  ultimately show ?thesis by (rule sublist_trans)
qed

lemma performance_contains_cpu_table:
  assumes "generate_performance_metrics R self = Inr pm"
    "metrics_get self ''cpu'' (PDict []) = PDict c" "map_of c ''top_processes'' = Some ps"
    "generate_top_processes_table R ps ''CPU'' = Inr t"
  shows "sublist t pm"
  using assms(1) unfolding generate_performance_metrics_def assms(2) Let_def
  apply (elim bndE)
  apply (clarsimp simp: assms(3) simp del: concat.simps)
  apply (clarsimp simp: assms(4) simp del: concat.simps)
  apply (rule sublist_concat_mem)
  apply simp
  done

lemma process_row_contains_command:
  assumes "process_row R p = Inr r" "py_getitem p ''command'' = Inr c"
  shows "sublist (py_str R c) r"
  using assms(1) unfolding process_row_def
  by (rule fstring_sublist_key [where k = "''command''"]) (simp_all add: assms(2))

lemma process_entry_ps_line:
  "process_entry (ps_line command) = Some (PDict
     [(''user'', PStr ''root''), (''pid'', PStr ''4242''), (''cpu'', PStr ''0.0''),
      (''mem'', PStr ''0.1''), (''command'', PStr (truncate_command command))])"
  by (simp add: process_entry_def ps_line_def)

lemma wf_snapshot_with_process: "wf_process p \<Longrightarrow> wf_snapshot (snapshot_with_process p)"
  by (simp add: wf_snapshot_def snapshot_with_process_def opt_key_def wf_example_system
        wf_cpu_def)

text \<open>
  Claim C8. Whatever command \<^verbatim>\<open>ps\<close> reports, its text as the collector stores it (cut to
  50 characters) is part of the rendered document as it is, without any escaping; a
  command such as \<^verbatim>\<open><script>alert(1)</script>\<close> is short enough to be stored whole.
\<close>

theorem collected_command_is_not_escaped:
  "(\<exists>p doc. process_entry (ps_line command) = Some p
      \<and> fst (generate_html R (snapshot_with_process p)) = Inr doc
      \<and> sublist (truncate_command command) doc)
   \<and> truncate_command ''<script>alert(1)</script>'' = ''<script>alert(1)</script>''"
proof
  define p where "p = PDict
     [(''user'', PStr ''root''), (''pid'', PStr ''4242''), (''cpu'', PStr ''0.0''),
      (''mem'', PStr ''0.1''), (''command'', PStr (truncate_command command))]"
  let ?self = "snapshot_with_process p"
  have p: "process_entry (ps_line command) = Some p"
    unfolding p_def by (rule process_entry_ps_line)
  have wfp: "wf_process p" by (simp add: wf_process_def p_def)
  from html_document_ok [OF wf_snapshot_with_process [OF wfp]]
  obtain doc where doc: "html_document R ?self = Inr doc" by (auto simp: ok_iff)
  from html_document_sections [OF doc] obtain pm where
    pm: "generate_performance_metrics R ?self = Inr pm" "sublist pm doc" by blast
  from top_processes_table_ok [of "PList [p]" R "''CPU''"] wfp
  obtain t where t: "generate_top_processes_table R (PList [p]) ''CPU'' = Inr t"
    by (auto simp: ok_iff)
  from process_row_ok [OF wfp] obtain r where r: "process_row R p = Inr r"
    by (auto simp: ok_iff)
  have "py_getitem p ''command'' = Inr (PStr (truncate_command command))"
    by (simp add: p_def)
  from process_row_contains_command [OF r this]
  have "sublist (truncate_command command) r" by simp
  moreover have "sublist r t"
    by (rule top_processes_table_contains_row [OF t _ r]) simp
  moreover have "sublist t pm"
  proof -
    have c: "metrics_get ?self ''cpu'' (PDict []) =
             PDict [(''usage_percent'', PFloat 0), (''top_processes'', PList [p])]"
      by (simp add: metrics_get_def snapshot_with_process_def)
    have tp: "map_of [(''usage_percent'', PFloat 0), (''top_processes'', PList [p])]
                ''top_processes'' = Some (PList [p])"
      by simp
    show ?thesis by (rule performance_contains_cpu_table [OF pm(1) c tp t])
  qed
  ultimately have "sublist (truncate_command command) doc"
    using pm(2) by (blast intro: sublist_trans)
  with p doc show "\<exists>p doc. process_entry (ps_line command) = Some p
      \<and> fst (generate_html R (snapshot_with_process p)) = Inr doc
      \<and> sublist (truncate_command command) doc"
    by (auto simp: generate_html_def)
  show "truncate_command ''<script>alert(1)</script>'' = ''<script>alert(1)</script>''"
    by (simp add: truncate_command_def str_take_def str_len_def is_continuation_def)
qed

text \<open>
  The condition on the core count cannot be dropped: \<^verbatim>\<open>_get_load_status\<close> divides the
  load average by \<^verbatim>\<open>cpu_cores\<close>, and on \<^verbatim>\<open>None\<close>, which \<^verbatim>\<open>os.cpu_count()\<close> may return,
  the division raises TypeError.
\<close>

lemma py_truediv_None: "py_truediv a PNone = Inl (Exn TypeError ''unsupported operand type(s) for /'')"
  by (cases "(a, PNone)" rule: py_truediv.cases) simp_all

lemma system_overview_without_core_count:
  assumes "map_of (metrics self) ''system'' = Some (PDict d)" "map_of d ''cpu_cores'' = Some PNone"
  shows "\<not> ok (generate_system_overview R self)"
proof
  assume "ok (generate_system_overview R self)"
  then obtain so where "generate_system_overview R self = Inr so" by (auto simp: ok_iff)
  then show False
    unfolding generate_system_overview_def metrics_getitem_def
    apply (elim bndE)
    apply (clarsimp simp: assms Let_def simp del: concat.simps fstring.simps)
    apply (elim bndE)
    apply (clarsimp simp: assms get_load_status_def py_truediv_None
             simp del: concat.simps fstring.simps)
    done
qed

section \<open>Renderer: the overall health\<close>

lemma determine_overall_health_one_filesystem:
  "determine_overall_health R (snapshot_with_filesystem u mp) =
     Inr (if 90 < u then (''critical'', [''Critical disk space on '' @ mp]) else (''ok'', []))"
  by (simp add: determine_overall_health_def health_cpu_def health_memory_def health_disk_def
        snapshot_with_filesystem_def filesystem_at_def)

lemma spec_overall_health_one_filesystem:
  "spec_overall_health (snapshot_with_filesystem u mp) = (if 90 \<le> u then ''critical'' else ''ok'')"
  by (simp add: spec_overall_health_def overall_health_rule_def snapshot_filesystems_def
        usage_of_def metrics_get_def snapshot_with_filesystem_def filesystem_at_def)

text \<open>
  Claim C1 at its boundary. On a snapshot with one filesystem at exactly 90 percent and
  no CPU or memory load, the code's overall health is \<^verbatim>\<open>ok\<close> with no issue listed,
  where the rule of the specification gives \<^verbatim>\<open>critical\<close>: the code tests
  \<^verbatim>\<open>usage_percent > 90\<close>.
\<close>

theorem overall_health_at_90_percent:
  "determine_overall_health R (snapshot_with_filesystem 90 ''/data'') = Inr (''ok'', [])
   \<and> spec_overall_health (snapshot_with_filesystem 90 ''/data'') = ''critical''"
  by (simp add: determine_overall_health_one_filesystem spec_overall_health_one_filesystem)

lemma filesystem_entry_90:
  "filesystem_entry [''/dev/sda1'', ''50G'', ''45G'', ''5G'', ''90%'', ''/data''] =
     Inr (Some (filesystem_at 90 ''/data''))"
  by (simp add: filesystem_entry_def filesystem_at_def py_int_def rstrip_percent_def
        to_ascii_def code_point_def is_continuation_def is_space_def is_digit_def
        digits_val_def Let_def)

lemma usage_gt:
  assumes "opt_key d ''usage_percent'' is_num"
  obtains u where "py_get (PDict d) ''usage_percent'' (PInt 0) = Inr u"
    "py_gt u c = Inr (of_int c < usage_of (PDict d))"
proof -
  have "is_num (case map_of d ''usage_percent'' of None \<Rightarrow> PInt 0 | Some v \<Rightarrow> v)"
    using assms by (rule opt_key_case) simp
  then obtain n where n: "(case map_of d ''usage_percent'' of None \<Rightarrow> PInt 0 | Some v \<Rightarrow> v) = PNum n"
    by (cases "case map_of d ''usage_percent'' of None \<Rightarrow> PInt 0 | Some v \<Rightarrow> v") simp_all
  show ?thesis
    by (rule that [of "PNum n"]) (simp_all add: n usage_of_def)
qed

lemma health_cpu_eq:
  assumes "opt_key (metrics self) ''cpu'' wf_cpu"
  shows "health_cpu self st =
     Inr (if 80 < usage_of (metrics_get self ''cpu'' (PDict []))
          then (''warning'', snd st @ [''High CPU usage'']) else st)"
proof (cases "map_of (metrics self) ''cpu''")
  case None
  then show ?thesis by (simp add: health_cpu_def metrics_get_def usage_of_def)
next
  case (Some cpu)
  with assms have "wf_cpu cpu" by (simp add: opt_key_def)
  then obtain d where d: "cpu = PDict d" "opt_key d ''usage_percent'' is_num"
    unfolding wf_cpu_def by (auto elim: dict_withE)
  from usage_gt [OF d(2), of 80] obtain u where
    "py_get (PDict d) ''usage_percent'' (PInt 0) = Inr u"
    "py_gt u 80 = Inr (of_int 80 < usage_of (PDict d))" .
  then show ?thesis
    using Some by (simp add: health_cpu_def metrics_get_def d(1) del: py_get.simps)
qed

lemma health_memory_eq:
  assumes "opt_key (metrics self) ''memory'' wf_memory"
  shows "health_memory self st =
     Inr (if 85 < usage_of (metrics_get self ''memory'' (PDict []))
          then (''warning'', snd st @ [''High memory usage'']) else st)"
proof (cases "map_of (metrics self) ''memory''")
  case None
  then show ?thesis by (simp add: health_memory_def metrics_get_def usage_of_def)
next
  case (Some memory)
  with assms have "wf_memory memory" by (simp add: opt_key_def)
  then obtain d where d: "memory = PDict d" "opt_key d ''usage_percent'' is_num"
    unfolding wf_memory_def by (auto elim: dict_withE)
  from usage_gt [OF d(2), of 85] obtain u where
    "py_get (PDict d) ''usage_percent'' (PInt 0) = Inr u"
    "py_gt u 85 = Inr (of_int 85 < usage_of (PDict d))" .
  then show ?thesis
    using Some by (simp add: health_memory_def metrics_get_def d(1) del: py_get.simps)
qed

lemma health_disk_loop_fst:
  "list_all wf_filesystem fss \<Longrightarrow>
   \<exists>issues. health_disk_loop R fss st =
     Inr (if list_ex (\<lambda>fs. 90 < usage_of fs) fss then ''critical'' else fst st, issues)"
proof (induction fss arbitrary: st)
  case Nil
  then show ?case by (cases st) simp
next
  case (Cons fs fss)
  then have "wf_filesystem fs" and rest: "list_all wf_filesystem fss" by simp_all
  then obtain d mp where d: "fs = PDict d" "opt_key d ''usage_percent'' is_num"
    "py_getitem (PDict d) ''mountpoint'' = Inr mp"
    unfolding wf_filesystem_def by (auto elim!: dict_withE simp: list_all_iff)
  from usage_gt [OF d(2), of 90] obtain u where u:
    "py_get (PDict d) ''usage_percent'' (PInt 0) = Inr u"
    "py_gt u 90 = Inr (of_int 90 < usage_of (PDict d))" .
  show ?case
  proof (cases "90 < usage_of (PDict d)")
    case True
    from Cons.IH [OF rest, of "(''critical'', snd st @ [''Critical disk space on '' @ py_str R mp])"]
    show ?thesis
      using True by (auto simp add: d(1,3) u simp del: py_get.simps py_getitem.simps
                        split: if_splits)
  next
    case False
    from Cons.IH [OF rest, of st] show ?thesis
      using False by (simp add: d(1) u del: py_get.simps py_getitem.simps)
  qed
qed

lemma health_disk_fst:
  assumes "opt_key (metrics self) ''disk'' wf_disk"
  shows "\<exists>issues. health_disk R self st =
     Inr (if list_ex (\<lambda>fs. 90 < usage_of fs) (snapshot_filesystems self)
          then ''critical'' else fst st, issues)"
proof (cases "map_of (metrics self) ''disk''")
  case None
  then show ?thesis
    by (cases st) (simp add: health_disk_def snapshot_filesystems_def metrics_get_def)
next
  case (Some disk)
  with assms have "wf_disk disk" by (simp add: opt_key_def)
  then obtain d where d: "disk = PDict d" "opt_key d ''filesystems'' (list_of wf_filesystem)"
    unfolding wf_disk_def by (auto elim: dict_withE)
  have "list_of wf_filesystem (case map_of d ''filesystems'' of None \<Rightarrow> PList [] | Some v \<Rightarrow> v)"
    using d(2) by (rule opt_key_case) simp
  then obtain fss where fss:
    "(case map_of d ''filesystems'' of None \<Rightarrow> PList [] | Some v \<Rightarrow> v) = PList fss"
    "list_all wf_filesystem fss"
    by (cases "case map_of d ''filesystems'' of None \<Rightarrow> PList [] | Some v \<Rightarrow> v") simp_all
  from health_disk_loop_fst [OF fss(2), of R st] show ?thesis
    using Some by (simp add: health_disk_def snapshot_filesystems_def metrics_get_def d(1) fss(1))
qed

lemma determine_overall_health_rule:
  assumes "wf_snapshot self"
  shows "\<exists>issues. determine_overall_health R self =
           Inr (overall_health_rule (\<lambda>u. 90 < u) self, issues)"
proof -
  from assms have w: "opt_key (metrics self) ''cpu'' wf_cpu"
    "opt_key (metrics self) ''memory'' wf_memory" "opt_key (metrics self) ''disk'' wf_disk"
    by (simp_all add: wf_snapshot_def)
  let ?cpu = "80 < usage_of (metrics_get self ''cpu'' (PDict []))"
  let ?mem = "85 < usage_of (metrics_get self ''memory'' (PDict []))"
  obtain st where st: "health_cpu self (''ok'', []) = Inr st"
    "fst st = (if ?cpu then ''warning'' else ''ok'')"
    by (simp add: health_cpu_eq [OF w(1)])
  obtain st' where st': "health_memory self st = Inr st'"
    "fst st' = (if ?cpu \<or> ?mem then ''warning'' else ''ok'')"
    using st(2) by (simp add: health_memory_eq [OF w(2)])
  from health_disk_fst [OF w(3), of R st'] obtain issues where
    "health_disk R self st' =
       Inr (if list_ex (\<lambda>fs. 90 < usage_of fs) (snapshot_filesystems self)
            then ''critical'' else fst st', issues)" ..
  then show ?thesis
    by (auto simp: determine_overall_health_def st(1) st' overall_health_rule_def)
qed

lemma system_overview_contains_health:
  assumes "generate_system_overview R self = Inr so"
    "determine_overall_health R self = Inr (h, issues)"
  shows "sublist (issues_line issues) so \<and> sublist (health_text_of h) so"
proof -
  from assms(1) obtain xs where "so = concat xs" "issues_line issues \<in> set xs"
    "health_text_of h \<in> set xs"
    unfolding generate_system_overview_def
    apply (elim bndE)
    apply (simp only: assms(2) sum.inject)
    apply (clarsimp simp: Let_def simp del: concat.simps fstring.simps)
    apply (elim bndE)
    apply (clarsimp simp del: concat.simps fstring.simps)
    done
  then show ?thesis by (simp add: sublist_concat_mem)
qed

lemma wf_snapshot_with_filesystem: "wf_snapshot (snapshot_with_filesystem u mp)"
  by (simp add: wf_snapshot_def snapshot_with_filesystem_def opt_key_def wf_example_system
        wf_cpu_def wf_memory_def wf_disk_def wf_filesystem_def filesystem_at_def)

lemma overall_health_at_95_percent:
  "determine_overall_health R (snapshot_with_filesystem 95 ''/data'') =
     Inr (''critical'', [''Critical disk space on /data''])
   \<and> (\<exists>doc. fst (generate_html R (snapshot_with_filesystem 95 ''/data'')) = Inr doc
         \<and> sublist ''<br>Issues: Critical disk space on /data'' doc
         \<and> sublist ''Critical Issues'' doc)"
proof
  let ?self = "snapshot_with_filesystem 95 ''/data''"
  show h: "determine_overall_health R ?self = Inr (''critical'', [''Critical disk space on /data''])"
    by (simp add: determine_overall_health_one_filesystem)
  have "ok (html_document R ?self)"
    by (rule html_document_ok) (rule wf_snapshot_with_filesystem)
  then obtain doc where doc: "html_document R ?self = Inr doc" by (auto simp: ok_iff)
  from html_document_sections [OF doc] obtain so where
    so: "generate_system_overview R ?self = Inr so" "sublist so doc" by blast
  from system_overview_contains_health [OF so(1) h]
  have "sublist ''<br>Issues: Critical disk space on /data'' so" "sublist ''Critical Issues'' so"
    by (simp_all add: issues_line_def health_text_of_def)
  with so(2) doc show "\<exists>doc. fst (generate_html R ?self) = Inr doc
         \<and> sublist ''<br>Issues: Critical disk space on /data'' doc
         \<and> sublist ''Critical Issues'' doc"
    by (auto simp: generate_html_def intro: sublist_trans)
qed

text \<open>
  The banner that opens the system overview, and the row of a filesystem in the table of
  the disk section.
\<close>

lemma system_overview_banner:
  assumes "generate_system_overview R self = Inr so"
    "determine_overall_health R self = Inr (h, issues)"
  shows \<open>sublist
     (concat [''<div class="alert alert-'', alert_of h,
        ''"><strong>Overall System Health: <span class="'', ''status-'' @ h, ''">'',
        health_text_of h, ''</span></strong>'', issues_line issues]) so\<close>
proof -
  from assms(1) obtain rest where \<open>so = concat
     ([''<div class="alert alert-'', alert_of h,
        ''"><strong>Overall System Health: <span class="'', ''status-'' @ h, ''">'',
        health_text_of h, ''</span></strong>'', issues_line issues] @ rest)\<close>
    unfolding generate_system_overview_def
    apply (elim bndE)
    apply (simp only: assms(2) sum.inject)
    apply (clarsimp simp: Let_def simp del: concat.simps fstring.simps)
    apply (elim bndE)
    apply (clarsimp simp del: concat.simps fstring.simps)
    done
  then show ?thesis by (simp only: sublist_concat_prefix)
qed

lemma filesystem_table_contains_row:
  assumes "filesystem_table R (PList fss) = Inr t" "fs \<in> set fss"
    "filesystem_row R fs = Inr r"
  shows "sublist r t"
proof -
  from assms(2) have ne: "fss \<noteq> []" by auto
  from assms(1) obtain body xs where body: "rows (filesystem_row R) fss = Inr body"
    and t: "t = concat xs" and mem: "body \<in> set xs"
    unfolding filesystem_table_def using ne
    by (auto simp: bnd_eq_Inr simp del: concat.simps)
  from rows_sublist [OF body assms(2,3)] have "sublist r body" .
  moreover have "sublist body t" unfolding t using mem by (rule sublist_concat_mem)
  ultimately show ?thesis by (rule sublist_trans)
qed

lemma disk_analysis_contains_table:
  assumes "generate_disk_analysis R self = Inr da"
    "metrics_get self ''disk'' (PDict []) = PDict d" "map_of d ''filesystems'' = Some fss"
    "filesystem_table R fss = Inr t"
  shows "sublist t da"
  using assms(1) unfolding generate_disk_analysis_def assms(2) Let_def
  apply (elim bndE)
  apply (clarsimp simp: assms(3) simp del: concat.simps)
  apply (clarsimp simp: assms(4) simp del: concat.simps)
  apply (rule sublist_concat_mem)
  apply simp
  done

lemma show_int_90: "show_int 90 = ''90''"
  by (simp add: show_int_def show_nat.simps [of 90] show_nat.simps [of 9] digit_char_def)

lemma filesystem_row_at_90:
  \<open>filesystem_row R (filesystem_at 90 ''/data'') = Inr
     (''<tr><td>/dev/sda1</td><td>50G</td><td>45G</td><td>5G</td><td><div class="progress-bar" style="width: 100px; height: 15px;"><div class="progress-fill progress-critical" style="width: 90%"></div></div><span class="status-critical">90%</span></td><td>/data</td><td><span class="status-critical">''
      @ bullet @ ''</span></td></tr>'')\<close>
  by (simp add: filesystem_row_def filesystem_at_def fs_status_def show_int_90)

lemma document_with_one_filesystem:
  assumes "determine_overall_health R (snapshot_with_filesystem u mp) = Inr (h, issues)"
    "filesystem_row R (filesystem_at u mp) = Inr r"
  shows \<open>\<exists>doc. fst (generate_html R (snapshot_with_filesystem u mp)) = Inr doc
     \<and> sublist r doc
     \<and> sublist (concat [''<div class="alert alert-'', alert_of h,
          ''"><strong>Overall System Health: <span class="'', ''status-'' @ h, ''">'',
          health_text_of h, ''</span></strong>'', issues_line issues]) doc\<close>
proof -
  let ?self = "snapshot_with_filesystem u mp"
  have "ok (html_document R ?self)"
    by (rule html_document_ok) (rule wf_snapshot_with_filesystem)
  then obtain doc where doc: "html_document R ?self = Inr doc" by (auto simp: ok_iff)
  from html_document_sections [OF doc] obtain so da where
    so: "generate_system_overview R ?self = Inr so" "sublist so doc"
    and da: "generate_disk_analysis R ?self = Inr da" "sublist da doc" by blast
  have wf: "wf_filesystem (filesystem_at u mp)"
    by (simp add: wf_filesystem_def filesystem_at_def opt_key_def)
  from filesystem_table_ok [of "PList [filesystem_at u mp]" R] wf
  obtain t where t: "filesystem_table R (PList [filesystem_at u mp]) = Inr t"
    by (auto simp: ok_iff)
  have "sublist r t" by (rule filesystem_table_contains_row [OF t _ assms(2)]) simp
  moreover have "sublist t da"
  proof -
    have d: "metrics_get ?self ''disk'' (PDict []) =
               PDict [(''filesystems'', PList [filesystem_at u mp])]"
      by (simp add: metrics_get_def snapshot_with_filesystem_def)
    have fss: "map_of [(''filesystems'', PList [filesystem_at u mp])] ''filesystems'' =
                 Some (PList [filesystem_at u mp])" by simp
    show ?thesis by (rule disk_analysis_contains_table [OF da(1) d fss t])
  qed
  ultimately have "sublist r doc" using da(2) by (blast intro: sublist_trans)
  moreover from system_overview_banner [OF so(1) assms(1)] so(2)
  have \<open>sublist (concat [''<div class="alert alert-'', alert_of h,
          ''"><strong>Overall System Health: <span class="'', ''status-'' @ h, ''">'',
          health_text_of h, ''</span></strong>'', issues_line issues]) doc\<close>
    by (rule sublist_trans)
  ultimately show ?thesis using doc by (auto simp: generate_html_def simp del: concat.simps)
qed

text \<open>
  Claim C10. The collector turns the \<^verbatim>\<open>df\<close> line of a filesystem at 90 percent into a
  record whose status is \<^verbatim>\<open>critical\<close>. On the snapshot with that one filesystem and no
  CPU or memory load, the rendered document holds the row of the filesystem table with
  the classes \<^verbatim>\<open>progress-critical\<close> and \<^verbatim>\<open>status-critical\<close>, and the banner of the overview
  with \<^verbatim>\<open>alert-success\<close>, \<^verbatim>\<open>status-ok\<close>, Excellent and no issue: the overall health is
  \<^verbatim>\<open>ok\<close>. The disk rule of the overall health fires from 91 percent on, where the banner
  is \<^verbatim>\<open>alert-danger\<close> with the issue of the mountpoint.
\<close>

theorem table_and_banner_disagree_at_90:
  \<open>filesystem_entry [''/dev/sda1'', ''50G'', ''45G'', ''5G'', ''90%'', ''/data''] =
     Inr (Some (filesystem_at 90 ''/data''))
   \<and> py_getitem (filesystem_at 90 ''/data'') ''usage_percent'' = Inr (PInt 90)
   \<and> py_getitem (filesystem_at 90 ''/data'') ''status'' = Inr (PStr ''critical'')
   \<and> determine_overall_health R (snapshot_with_filesystem 90 ''/data'') = Inr (''ok'', [])
   \<and> (\<exists>doc. fst (generate_html R (snapshot_with_filesystem 90 ''/data'')) = Inr doc
        \<and> sublist
            (''<tr><td>/dev/sda1</td><td>50G</td><td>45G</td><td>5G</td><td><div class="progress-bar" style="width: 100px; height: 15px;"><div class="progress-fill progress-critical" style="width: 90%"></div></div><span class="status-critical">90%</span></td><td>/data</td><td><span class="status-critical">''
             @ bullet @ ''</span></td></tr>'') doc
        \<and> sublist ''<div class="alert alert-success"><strong>Overall System Health: <span class="status-ok">Excellent</span></strong><br>All systems operating normally'' doc)
   \<and> determine_overall_health R (snapshot_with_filesystem 91 ''/data'') =
       Inr (''critical'', [''Critical disk space on /data''])
   \<and> (\<exists>doc. fst (generate_html R (snapshot_with_filesystem 91 ''/data'')) = Inr doc
        \<and> sublist ''<div class="alert alert-danger"><strong>Overall System Health: <span class="status-critical">Critical Issues</span></strong><br>Issues: Critical disk space on /data'' doc)\<close>
proof -
  have h90: "determine_overall_health R (snapshot_with_filesystem 90 ''/data'') = Inr (''ok'', [])"
    by (simp add: determine_overall_health_one_filesystem)
  have h91: "determine_overall_health R (snapshot_with_filesystem 91 ''/data'') =
       Inr (''critical'', [''Critical disk space on /data''])"
    by (simp add: determine_overall_health_one_filesystem)
  have wf: "wf_filesystem (filesystem_at 91 ''/data'')"
    by (simp add: wf_filesystem_def filesystem_at_def opt_key_def)
  from filesystem_row_ok [OF wf, of R] obtain r where
    r: "filesystem_row R (filesystem_at 91 ''/data'') = Inr r" by (auto simp: ok_iff)
  from document_with_one_filesystem [OF h90 filesystem_row_at_90]
  have d90: \<open>\<exists>doc. fst (generate_html R (snapshot_with_filesystem 90 ''/data'')) = Inr doc
        \<and> sublist
            (''<tr><td>/dev/sda1</td><td>50G</td><td>45G</td><td>5G</td><td><div class="progress-bar" style="width: 100px; height: 15px;"><div class="progress-fill progress-critical" style="width: 90%"></div></div><span class="status-critical">90%</span></td><td>/data</td><td><span class="status-critical">''
             @ bullet @ ''</span></td></tr>'') doc
        \<and> sublist ''<div class="alert alert-success"><strong>Overall System Health: <span class="status-ok">Excellent</span></strong><br>All systems operating normally'' doc\<close>
    by (simp add: alert_of_def health_text_of_def issues_line_def)
  from document_with_one_filesystem [OF h91 r]
  have d91: \<open>\<exists>doc. fst (generate_html R (snapshot_with_filesystem 91 ''/data'')) = Inr doc
        \<and> sublist ''<div class="alert alert-danger"><strong>Overall System Health: <span class="status-critical">Critical Issues</span></strong><br>Issues: Critical disk space on /data'' doc\<close>
    by (auto simp add: alert_of_def health_text_of_def issues_line_def)
  have e: "filesystem_entry [''/dev/sda1'', ''50G'', ''45G'', ''5G'', ''90%'', ''/data''] =
     Inr (Some (filesystem_at 90 ''/data''))" by (rule filesystem_entry_90)
  have g: "py_getitem (filesystem_at 90 ''/data'') ''usage_percent'' = Inr (PInt 90)"
    "py_getitem (filesystem_at 90 ''/data'') ''status'' = Inr (PStr ''critical'')"
    by (simp_all add: filesystem_at_def fs_status_def)
  from e g h90 d90 h91 d91 show ?thesis by blast
qed

section \<open>Collector: which exceptions leave it\<close>

lemma guarded_touches_its_group_only:
  "fst (guarded g body self) = None
   \<and> map_of (collected (snd (guarded g body self))) g = Some (group_or_marker body)
   \<and> (\<forall>g'. g' \<noteq> g \<longrightarrow>
        map_of (collected (snd (guarded g body self))) g' = map_of (collected self) g')"
  by (simp add: guarded_def set_group_def update_conv')

lemma group_or_marker_error:
  "group_or_marker (Inl e) = PDict [(''error'', PStr (exn_str e))]"
  "group_or_marker (Inr v) = v"
  by (simp_all add: group_or_marker_def error_marker_def)

lemma collect_system_info_raises:
  "system_info_body h self = Inl e \<Longrightarrow> collect_all_metrics h self = (Some e, self)"
  by (simp add: collect_all_metrics_def collect_system_info_def)

lemma collect_all_metrics_after_system_info:
  assumes "system_info_body h self = Inr v"
  shows "\<exists>self'. collect_all_metrics h self = (None, self')
     \<and> map_of (collected self') ''system'' = Some v
     \<and> map_of (collected self') ''cpu'' =
         Some (group_or_marker (cpu_body h (set_group ''system'' v self)))
     \<and> map_of (collected self') ''memory'' = Some (group_or_marker (memory_body h))
     \<and> map_of (collected self') ''disk'' = Some (group_or_marker (disk_body h))
     \<and> map_of (collected self') ''network'' = Some (group_or_marker (network_body h))
     \<and> map_of (collected self') ''services'' = Some (group_or_marker (services_body h))
     \<and> map_of (collected self') ''security'' = Some (group_or_marker (security_body h))"
  using assms
  by (simp add: collect_all_metrics_def collect_system_info_def collect_cpu_metrics_def
        collect_memory_metrics_def collect_disk_metrics_def collect_network_metrics_def
        collect_service_metrics_def collect_security_metrics_def guarded_def set_group_def
        update_conv')

text \<open>
  Claim C2 at the system group. On a host where reading \<^verbatim>\<open>/proc/uptime\<close> raises,
  the exception leaves \<^verbatim>\<open>collect_system_info\<close> and \<^verbatim>\<open>collect_all_metrics\<close>; the snapshot
  stays empty, with no error marker for the system group and no other group collected.
\<close>

theorem collect_system_info_is_not_guarded:
  "collect_all_metrics host_without_uptime new_collector =
     (Some (Exn OSError ''[Errno 5] Input/output error''), new_collector)
   \<and> collected (snd (collect_all_metrics host_without_uptime new_collector)) = []"
proof -
  have "system_info_body host_without_uptime new_collector =
          Inl (Exn OSError ''[Errno 5] Input/output error'')"
    by (simp add: system_info_body_def host_without_uptime_def answering_host_def)
  then have "collect_all_metrics host_without_uptime new_collector =
     (Some (Exn OSError ''[Errno 5] Input/output error''), new_collector)"
    by (rule collect_system_info_raises)
  then show ?thesis by (simp add: new_collector_def)
qed

section \<open>Collector and renderer: the system group\<close>

text \<open>
  What \<^verbatim>\<open>collect_system_info\<close> writes has the shape \<open>wf_system\<close> when the probes answer and
  \<^verbatim>\<open>os.cpu_count()\<close> is a positive integer. When \<^verbatim>\<open>os.cpu_count()\<close> is \<^verbatim>\<open>None\<close> the
  collector still returns normally, and rendering the snapshot it collected raises.
\<close>

lemma system_info_body_wf:
  assumes "read_redhat_release h = Inr s
           \<or> (\<exists>e. read_redhat_release h = Inl e \<and> exn_class_of e = FileNotFoundError)"
    "read_proc_uptime h = Inr u" "getloadavg h = Inr l" "cpu_count h = PInt c" "0 < c" "c < 2 ^ 53"
  shows "\<exists>v. system_info_body h self = Inr v \<and> wf_system v"
  using assms
  by (auto simp add: system_info_body_def wf_system_def wf_load_avg_def opt_key_def Let_def)

lemma rendering_without_core_count:
  assumes "system_info_body h self = Inr v" "cpu_count h = PNone"
  shows "\<exists>self'. collect_all_metrics h self = (None, self')
           \<and> \<not> ok (fst (generate_html R \<lparr>metrics = collected self'\<rparr>))"
proof -
  from collect_all_metrics_after_system_info [OF assms(1)] obtain self' where
    s: "collect_all_metrics h self = (None, self')" "map_of (collected self') ''system'' = Some v"
    by blast
  from assms obtain d where d: "v = PDict d" "map_of d ''cpu_cores'' = Some PNone"
    by (auto simp add: system_info_body_def bnd_eq_Inr Let_def)
  have "\<not> ok (generate_system_overview R \<lparr>metrics = collected self'\<rparr>)"
    by (rule system_overview_without_core_count [of _ d]) (simp_all add: s(2) d)
  then have "\<not> ok (fst (generate_html R \<lparr>metrics = collected self'\<rparr>))"
    by (simp add: generate_html_def html_document_def ok_bnd)
  with s(1) show ?thesis by blast
qed

end
